theory Spec2Isabelle
  imports Complex_Main "HOL-Library.Word" "HOL-Library.Monad_Syntax"
begin

section \<open>Machine types and modelling conventions\<close>

text \<open>
  The repository is a thin layer between a host buffer and two external libraries: the
  JPEG XL codec (libjxl) and a colour management library (skcms).  Neither library is part
  of the repository.  The model therefore runs each entry point against the answers the
  libraries gave in one run: every theorem quantifies over all such answers.

  \<^item> \<open>uint32_t\<close> and \<open>int\<close> are 32-bit words; an \<open>int\<close> is read through \<open>sint\<close> and
    compared with the signed order \<open>\<le>s\<close>.
  \<^item> \<open>size_t\<close> is 32 bits wide in \<open>encode\<close> and the decoders (the wasm32 target of
    Emscripten); \<open>ComputeExpectedSize\<close> itself is polymorphic in the width \<open>'s\<close> of
    \<open>size_t\<close>.
  \<^item> \<open>float\<close> values are modelled as real numbers, with the rounding of every operation
    and the library's power function as parameters (\<open>float_ops\<close> below); infinities and
    NaN are not represented.
  \<^item> Memory is unbounded: a failing allocation is not modelled, so buffer sizes are
    natural numbers.
\<close>

type_synonym uint8_t = "8 word"
type_synonym uint16_t = "16 word"
type_synonym uint32_t = "32 word"
type_synonym int32_t = "32 word"
type_synonym size_t = "32 word"

text \<open>
  The arithmetic of \<open>float\<close>.  A \<open>float\<close> value is a real number, and every operation on
  \<open>float\<close> is the exact operation followed by the rounding \<open>rnd\<close>; a decimal literal such
  as \<open>0.1f\<close> is \<open>rnd 0.1\<close>, and literals that are binary fractions (\<open>100.0f\<close>, \<open>2.5f\<close>,
  \<open>6.25f\<close>, \<open>255.0f\<close>) are themselves.  \<open>powf\<close> is the library's power function
  (\<open>std::pow\<close> on \<open>float\<close>, \<open>powf\<close>).  Both are parameters: \<open>exact_float\<close> is arithmetic
  without rounding, in which the formulas of the specification are read.  Comparisons,
  \<open>std::min\<close>, \<open>std::max\<close> and \<open>std::clamp\<close> are exact.
\<close>

record float_ops =
  rnd :: "real \<Rightarrow> real"
  powf :: "real \<Rightarrow> real \<Rightarrow> real"

definition exact_float :: float_ops where
  "exact_float = \<lparr> rnd = (\<lambda>x. x), powf = (powr) \<rparr>"

section \<open>Encoder: size validation (jxl\_enc.cpp)\<close>

text \<open>
  \<open>ComputeExpectedSize\<close>, lines 40--59.  The out-parameter and the boolean result are one
  \<open>option\<close>: \<open>None\<close> is \<open>return false\<close>, \<open>Some n\<close> is \<open>*expected_size = n; return true\<close>.
  \<open>std::numeric_limits<size_t>::max()\<close> is the all-ones word \<open>- 1\<close>.
\<close>

definition ComputeExpectedSize ::
  "uint32_t \<Rightarrow> uint32_t \<Rightarrow> int32_t \<Rightarrow> 's::len word \<Rightarrow> 's word option" where
  "ComputeExpectedSize width height num_channels bytes_per_sample =
     (if width = 0 \<or> height = 0 \<or> num_channels \<le>s 0 \<or> bytes_per_sample = 0 then None
      else
        let width_s = (ucast width :: 's word);
            height_s = (ucast height :: 's word);
            channels_s = (scast num_channels :: 's word);
            max_size = (- 1 :: 's word)
        in if width_s > max_size div height_s then None
           else
             let pixels = width_s * height_s
             in if pixels > max_size div channels_s then None
                else
                  let samples = pixels * channels_s
                  in if samples > max_size div bytes_per_sample then None
                     else Some (samples * bytes_per_sample))"

text \<open>\<open>IsSupportedCombination\<close>, lines 61--66.\<close>

definition IsSupportedCombination :: "int32_t \<Rightarrow> int32_t \<Rightarrow> bool" where
  "IsSupportedCombination input_type bit_depth =
     (if input_type = 0 then bit_depth = 8
      else if input_type = 1 then bit_depth = 10 \<or> bit_depth = 12 \<or> bit_depth = 16
      else if input_type = 2 then bit_depth = 32
      else False)"

section \<open>Types of the codec interface\<close>

text \<open>
  The structs and enumerations of the libjxl headers, with the fields and enumerators this
  code reads or writes.  \<open>JxlWhitePoint_0\<close>, \<open>JxlPrimaries_0\<close> and
  \<open>JxlTransferFunction_0\<close> stand for the value 0, which the value-initialisation
  \<open>JxlColorEncoding color_encoding = {}\<close> produces and no enumerator names.
  \<open>JxlExtraChannelInfo\<close> and \<open>JxlBasicInfo\<close> share three field names; the fields of the
  former are written with their qualified names.
\<close>

datatype JxlExtraChannelType = JXL_CHANNEL_ALPHA | JXL_CHANNEL_DEPTH | JXL_CHANNEL_OTHER

record JxlExtraChannelInfo =
  channel_type :: JxlExtraChannelType
  bits_per_sample :: uint32_t
  exponent_bits_per_sample :: uint32_t
  alpha_premultiplied :: bool

record JxlBasicInfo =
  xsize :: uint32_t
  ysize :: uint32_t
  bits_per_sample :: uint32_t
  exponent_bits_per_sample :: uint32_t
  num_color_channels :: uint32_t
  num_extra_channels :: uint32_t
  alpha_bits :: uint32_t
  alpha_exponent_bits :: uint32_t
  alpha_premultiplied :: bool
  uses_original_profile :: bool

datatype JxlColorSpace = JXL_COLOR_SPACE_RGB | JXL_COLOR_SPACE_GRAY | JXL_COLOR_SPACE_XYB
  | JXL_COLOR_SPACE_UNKNOWN

datatype JxlWhitePoint = JxlWhitePoint_0 | JXL_WHITE_POINT_D65 | JXL_WHITE_POINT_CUSTOM
  | JXL_WHITE_POINT_E | JXL_WHITE_POINT_DCI

datatype JxlPrimaries = JxlPrimaries_0 | JXL_PRIMARIES_SRGB | JXL_PRIMARIES_CUSTOM
  | JXL_PRIMARIES_2100 | JXL_PRIMARIES_P3

datatype JxlTransferFunction = JxlTransferFunction_0 | JXL_TRANSFER_FUNCTION_709
  | JXL_TRANSFER_FUNCTION_UNKNOWN | JXL_TRANSFER_FUNCTION_LINEAR | JXL_TRANSFER_FUNCTION_SRGB
  | JXL_TRANSFER_FUNCTION_PQ | JXL_TRANSFER_FUNCTION_DCI | JXL_TRANSFER_FUNCTION_HLG
  | JXL_TRANSFER_FUNCTION_GAMMA

datatype JxlRenderingIntent = JXL_RENDERING_INTENT_PERCEPTUAL | JXL_RENDERING_INTENT_RELATIVE
  | JXL_RENDERING_INTENT_SATURATION | JXL_RENDERING_INTENT_ABSOLUTE

record JxlColorEncoding =
  color_space :: JxlColorSpace
  white_point :: JxlWhitePoint
  primaries :: JxlPrimaries
  transfer_function :: JxlTransferFunction
  rendering_intent :: JxlRenderingIntent

datatype JxlDataType = JXL_TYPE_FLOAT | JXL_TYPE_UINT8 | JXL_TYPE_UINT16 | JXL_TYPE_FLOAT16

datatype JxlEndianness = JXL_NATIVE_ENDIAN | JXL_LITTLE_ENDIAN | JXL_BIG_ENDIAN

text \<open>\<open>JxlPixelFormat\<close> is built positionally, as the aggregate initialiser at line 292 does:
  channel count, data type, endianness, alignment.\<close>

datatype JxlPixelFormat = JxlPixelFormat uint32_t JxlDataType JxlEndianness size_t

datatype JxlEncoderStatus = JXL_ENC_SUCCESS | JXL_ENC_ERROR | JXL_ENC_NEED_MORE_OUTPUT

datatype JxlEncoderFrameSettingId =
    JXL_ENC_FRAME_SETTING_EFFORT
  | JXL_ENC_FRAME_SETTING_DECODING_SPEED
  | JXL_ENC_FRAME_SETTING_EPF
  | JXL_ENC_FRAME_SETTING_PHOTON_NOISE
  | JXL_ENC_FRAME_SETTING_LOSSY_PALETTE
  | JXL_ENC_FRAME_SETTING_PALETTE_COLORS
  | JXL_ENC_FRAME_SETTING_MODULAR
  | JXL_ENC_FRAME_SETTING_QPROGRESSIVE_AC
  | JXL_ENC_FRAME_SETTING_RESPONSIVE
  | JXL_ENC_FRAME_SETTING_PROGRESSIVE_DC

datatype JxlDecoderStatus =
    JXL_DEC_SUCCESS
  | JXL_DEC_ERROR
  | JXL_DEC_NEED_MORE_INPUT
  | JXL_DEC_NEED_IMAGE_OUT_BUFFER
  | JXL_DEC_BASIC_INFO
  | JXL_DEC_COLOR_ENCODING
  | JXL_DEC_FULL_IMAGE

datatype skcms_AlphaFormat = skcms_AlphaFormat_Unpremul | skcms_AlphaFormat_PremulAsEncoded

section \<open>Decoder (jxl\_dec.cpp)\<close>

text \<open>
  One run of the decoder against the codec and skcms: the value each library call returned,
  in the order the three entry points make the calls (they make the same calls up to the
  full image).  A pair is a status together with what the call wrote through its
  out-parameter.  \<open>JxlDecoderProcessInput\<close> is called four times.  \<open>skcms_Parse\<close> and
  \<open>skcms_Transform\<close> are functions of their arguments: the profile bytes, and the source
  samples, the source alpha format, the profile bytes and the pixel count.  The result of
  \<open>JxlDecoderCreate\<close> is not tested by the code and the result of \<open>JxlDecoderSetInput\<close> is
  ignored, so neither has a field.
\<close>

record decoder_run =
  JxlDecoderSubscribeEvents :: JxlDecoderStatus
  JxlDecoderProcessInput_1 :: JxlDecoderStatus
  JxlDecoderGetBasicInfo :: "JxlDecoderStatus \<times> JxlBasicInfo"
  JxlDecoderProcessInput_2 :: JxlDecoderStatus
  JxlDecoderGetICCProfileSize :: "JxlDecoderStatus \<times> size_t"
  JxlDecoderGetColorAsICCProfile :: "JxlDecoderStatus \<times> uint8_t list"
  JxlDecoderProcessInput_3 :: JxlDecoderStatus
  JxlDecoderImageOutBufferSize :: "JxlDecoderStatus \<times> size_t"
  JxlDecoderSetImageOutBuffer :: JxlDecoderStatus
  JxlDecoderProcessInput_4 :: "JxlDecoderStatus \<times> real list"
  skcms_Parse :: "uint8_t list \<Rightarrow> bool"
  skcms_Transform ::
    "real list \<Rightarrow> skcms_AlphaFormat \<Rightarrow> uint8_t list \<Rightarrow> nat \<Rightarrow> bool \<times> uint8_t list"

definition COMPONENTS_PER_PIXEL :: size_t where
  "COMPONENTS_PER_PIXEL = 4"

text \<open>
  The macros \<open>EXPECT_TRUE\<close> and \<open>EXPECT_EQ\<close> of lines 41--46 (the build without
  \<open>JXL_DEBUG_ON_ALL_ERROR\<close>): \<open>None\<close> is \<open>return val::null()\<close>.
\<close>

definition EXPECT_TRUE :: "bool \<Rightarrow> unit option" where
  "EXPECT_TRUE a = (if a then Some () else None)"

definition EXPECT_EQ :: "'a \<Rightarrow> 'a \<Rightarrow> unit option" where
  "EXPECT_EQ a b = EXPECT_TRUE (a = b)"

text \<open>
  A zero-initialised buffer of \<open>n\<close> elements (\<open>std::vector<uint8_t>(n)\<close>,
  \<open>std::make_unique<T[]>(n)\<close>) after a library call wrote \<open>out\<close> into it from its start.
\<close>

definition written_into :: "nat \<Rightarrow> 'a::zero list \<Rightarrow> 'a list" where
  "written_into n out = take n out @ replicate (n - length out) 0"

text \<open>
  The values handed to the host: numbers, strings, booleans, typed arrays, \<open>ImageData\<close>.
  The object built with \<open>Object.new_()\<close> and \<open>result.set(key, value)\<close> is a map from keys to
  values.
\<close>

datatype val =
    Number int
  | String string
  | Boolean bool
  | Uint8Array "uint8_t list"
  | Uint8ClampedArray "uint8_t list"
  | Uint16Array "uint16_t list"
  | Float32Array "real list"
  | ImageData val uint32_t uint32_t

type_synonym object = "string \<rightharpoonup> val"

definition Object_new :: object where
  "Object_new = Map.empty"

definition Object_set :: "object \<Rightarrow> string \<Rightarrow> val \<Rightarrow> object" where
  "Object_set obj key v = obj(key \<mapsto> v)"

text \<open>
  \<open>decode\<close>, lines 53--103.  \<open>engine input\<close> is the run of the libraries on the bytes
  \<open>input\<close>.  \<open>info.xsize * info.ysize\<close> is a product of two \<open>uint32_t\<close> and wraps before it is
  widened to \<open>size_t\<close>.
\<close>

definition decode :: "(uint8_t list \<Rightarrow> decoder_run) \<Rightarrow> uint8_t list \<Rightarrow> val option" where
  "decode engine input = (let dec = engine input in do {
     EXPECT_EQ JXL_DEC_SUCCESS (JxlDecoderSubscribeEvents dec);
     EXPECT_EQ JXL_DEC_BASIC_INFO (JxlDecoderProcessInput_1 dec);
     EXPECT_EQ JXL_DEC_SUCCESS (fst (JxlDecoderGetBasicInfo dec));
     let info = snd (JxlDecoderGetBasicInfo dec);
     let pixel_count = (ucast (xsize info * ysize info) :: size_t);
     let component_count = pixel_count * COMPONENTS_PER_PIXEL;
     EXPECT_EQ JXL_DEC_COLOR_ENCODING (JxlDecoderProcessInput_2 dec);
     EXPECT_EQ JXL_DEC_SUCCESS (fst (JxlDecoderGetICCProfileSize dec));
     let icc_size = snd (JxlDecoderGetICCProfileSize dec);
     EXPECT_EQ JXL_DEC_SUCCESS (fst (JxlDecoderGetColorAsICCProfile dec));
     let icc_profile = written_into (unat icc_size) (snd (JxlDecoderGetColorAsICCProfile dec));
     EXPECT_EQ JXL_DEC_NEED_IMAGE_OUT_BUFFER (JxlDecoderProcessInput_3 dec);
     EXPECT_EQ JXL_DEC_SUCCESS (fst (JxlDecoderImageOutBufferSize dec));
     let buffer_size = snd (JxlDecoderImageOutBufferSize dec);
     EXPECT_EQ buffer_size (component_count * 4);
     EXPECT_EQ JXL_DEC_SUCCESS (JxlDecoderSetImageOutBuffer dec);
     EXPECT_EQ JXL_DEC_FULL_IMAGE (fst (JxlDecoderProcessInput_4 dec));
     let float_pixels = written_into (unat component_count) (snd (JxlDecoderProcessInput_4 dec));
     EXPECT_TRUE (skcms_Parse dec icc_profile);
     let transformed = skcms_Transform dec float_pixels
           (if JxlBasicInfo.alpha_premultiplied info then skcms_AlphaFormat_PremulAsEncoded
            else skcms_AlphaFormat_Unpremul)
           icc_profile (unat pixel_count);
     EXPECT_TRUE (fst transformed);
     let byte_pixels = written_into (unat component_count) (snd transformed);
     Some (ImageData (Uint8ClampedArray byte_pixels) (xsize info) (ysize info))
   })"

text \<open>
  The body of the loop of lines 219--227 for one sample: the gamma curve when
  \<open>exponent_bits > 0\<close>, then clamping to \<open>[0, 1]\<close>, scaling by 255 and the conversion to
  \<open>uint8_t\<close>, which truncates.
\<close>

definition fallback_sample :: "float_ops \<Rightarrow> uint32_t \<Rightarrow> real \<Rightarrow> uint8_t" where
  "fallback_sample fl exponent_bits v0 =
     (let v = (if exponent_bits > 0
               then (if v0 \<le> rnd fl 0.0031308 then rnd fl (v0 * rnd fl 12.92)
                     else rnd fl (rnd fl (rnd fl 1.055 * powf fl v0 (rnd fl (1 / rnd fl 2.4)))
                                  - rnd fl 0.055))
               else v0)
      in word_of_int \<lfloor>rnd fl (max 0 (min 1 v) * 255)\<rfloor>)"

text \<open>\<open>decodeHighBitDepth\<close>, lines 120--256.\<close>

definition decodeHighBitDepth ::
  "float_ops \<Rightarrow> (uint8_t list \<Rightarrow> decoder_run) \<Rightarrow> uint8_t list \<Rightarrow> object option" where
  "decodeHighBitDepth fl engine input = (let dec = engine input in do {
     EXPECT_EQ JXL_DEC_SUCCESS (JxlDecoderSubscribeEvents dec);
     EXPECT_EQ JXL_DEC_BASIC_INFO (JxlDecoderProcessInput_1 dec);
     EXPECT_EQ JXL_DEC_SUCCESS (fst (JxlDecoderGetBasicInfo dec));
     let info = snd (JxlDecoderGetBasicInfo dec);
     let pixel_count = (ucast (xsize info * ysize info) :: size_t);
     let component_count = pixel_count * COMPONENTS_PER_PIXEL;
     let exponent_bits = JxlBasicInfo.exponent_bits_per_sample info;
     let effective_bit_depth =
           (if exponent_bits > 0 then 32
            else if JxlBasicInfo.bits_per_sample info \<le> 8 then 8
            else if JxlBasicInfo.bits_per_sample info \<le> 10 then 10
            else if JxlBasicInfo.bits_per_sample info \<le> 12 then 12
            else (16 :: int));
     EXPECT_EQ JXL_DEC_COLOR_ENCODING (JxlDecoderProcessInput_2 dec);
     EXPECT_EQ JXL_DEC_SUCCESS (fst (JxlDecoderGetICCProfileSize dec));
     let icc_size = snd (JxlDecoderGetICCProfileSize dec);
     (if icc_size > 0 then EXPECT_EQ JXL_DEC_SUCCESS (fst (JxlDecoderGetColorAsICCProfile dec))
      else Some ());
     let icc_profile =
           (if icc_size > 0
            then written_into (unat icc_size) (snd (JxlDecoderGetColorAsICCProfile dec))
            else replicate (unat icc_size) 0);
     EXPECT_EQ JXL_DEC_NEED_IMAGE_OUT_BUFFER (JxlDecoderProcessInput_3 dec);
     EXPECT_EQ JXL_DEC_SUCCESS (fst (JxlDecoderImageOutBufferSize dec));
     let buffer_size = snd (JxlDecoderImageOutBufferSize dec);
     EXPECT_EQ buffer_size (component_count * 4);
     EXPECT_EQ JXL_DEC_SUCCESS (JxlDecoderSetImageOutBuffer dec);
     EXPECT_EQ JXL_DEC_FULL_IMAGE (fst (JxlDecoderProcessInput_4 dec));
     let float_pixels = written_into (unat component_count) (snd (JxlDecoderProcessInput_4 dec));
     let color_space_str = (if exponent_bits > 0 then ''linear'' else ''srgb'');
     let result = Object_new;
     let result = Object_set result ''width'' (Number (uint (xsize info)));
     let result = Object_set result ''height'' (Number (uint (ysize info)));
     let result = Object_set result ''bitDepth'' (Number effective_bit_depth);
     let result = Object_set result ''colorSpace'' (String color_space_str);
     let result = Object_set result ''hasAlpha'' (Boolean (alpha_bits info > 0));
     let result = (if icc_size > 0 then Object_set result ''iccProfile'' (Uint8Array icc_profile)
                   else Object_set result ''iccProfile'' (Uint8Array []));
     (if effective_bit_depth = 8 then
        (if icc_size > 0 \<and> skcms_Parse dec icc_profile then do {
           let transformed = skcms_Transform dec float_pixels
                 (if JxlBasicInfo.alpha_premultiplied info then skcms_AlphaFormat_PremulAsEncoded
                  else skcms_AlphaFormat_Unpremul)
                 icc_profile (unat pixel_count);
           EXPECT_TRUE (fst transformed);
           let byte_pixels = written_into (unat component_count) (snd transformed);
           Some (Object_set result ''data'' (Uint8ClampedArray byte_pixels))
         } else
           Some (Object_set result ''data''
                  (Uint8ClampedArray (map (fallback_sample fl exponent_bits) float_pixels))))
      else if effective_bit_depth = 32 then
        Some (Object_set result ''data'' (Float32Array float_pixels))
      else
        (let scale = real_of_int (push_bit (nat effective_bit_depth) 1 - 1);
             uint16_pixels =
               map (\<lambda>v. word_of_int \<lfloor>rnd fl (max 0 (min 1 v) * scale)\<rfloor>) float_pixels
         in Some (Object_set result ''data'' (Uint16Array uint16_pixels))))
   })"

text \<open>\<open>decodeLinearFloat\<close>, lines 270--340.\<close>

definition decodeLinearFloat ::
  "(uint8_t list \<Rightarrow> decoder_run) \<Rightarrow> uint8_t list \<Rightarrow> object option" where
  "decodeLinearFloat engine input = (let dec = engine input in do {
     EXPECT_EQ JXL_DEC_SUCCESS (JxlDecoderSubscribeEvents dec);
     EXPECT_EQ JXL_DEC_BASIC_INFO (JxlDecoderProcessInput_1 dec);
     EXPECT_EQ JXL_DEC_SUCCESS (fst (JxlDecoderGetBasicInfo dec));
     let info = snd (JxlDecoderGetBasicInfo dec);
     let pixel_count = (ucast (xsize info * ysize info) :: size_t);
     let component_count = pixel_count * COMPONENTS_PER_PIXEL;
     EXPECT_EQ JXL_DEC_COLOR_ENCODING (JxlDecoderProcessInput_2 dec);
     EXPECT_EQ JXL_DEC_SUCCESS (fst (JxlDecoderGetICCProfileSize dec));
     let icc_size = snd (JxlDecoderGetICCProfileSize dec);
     (if icc_size > 0 then EXPECT_EQ JXL_DEC_SUCCESS (fst (JxlDecoderGetColorAsICCProfile dec))
      else Some ());
     let icc_profile =
           (if icc_size > 0
            then written_into (unat icc_size) (snd (JxlDecoderGetColorAsICCProfile dec))
            else replicate (unat icc_size) 0);
     EXPECT_EQ JXL_DEC_NEED_IMAGE_OUT_BUFFER (JxlDecoderProcessInput_3 dec);
     EXPECT_EQ JXL_DEC_SUCCESS (fst (JxlDecoderImageOutBufferSize dec));
     let buffer_size = snd (JxlDecoderImageOutBufferSize dec);
     EXPECT_EQ buffer_size (component_count * 4);
     EXPECT_EQ JXL_DEC_SUCCESS (JxlDecoderSetImageOutBuffer dec);
     EXPECT_EQ JXL_DEC_FULL_IMAGE (fst (JxlDecoderProcessInput_4 dec));
     let float_pixels = written_into (unat component_count) (snd (JxlDecoderProcessInput_4 dec));
     let result = Object_new;
     let result = Object_set result ''width'' (Number (uint (xsize info)));
     let result = Object_set result ''height'' (Number (uint (ysize info)));
     let result = Object_set result ''sourceBitDepth''
                    (Number (sint (JxlBasicInfo.bits_per_sample info)));
     let is_linear = JxlBasicInfo.exponent_bits_per_sample info > 0;
     let color_space_str = (if is_linear then ''linear'' else ''srgb'');
     let result = Object_set result ''colorSpace'' (String color_space_str);
     let result = (if icc_size > 0 then Object_set result ''iccProfile'' (Uint8Array icc_profile)
                   else Object_set result ''iccProfile'' (Uint8Array []));
     let result = Object_set result ''data'' (Float32Array float_pixels);
     Some result
   })"

section \<open>Encoder (jxl\_enc.cpp)\<close>

text \<open>\<open>struct JXLOptions\<close>, lines 23--38.\<close>

record JXLOptions =
  effort :: int32_t
  quality :: real
  progressive :: bool
  epf :: int32_t
  lossyPalette :: bool
  decodingSpeedTier :: size_t
  photonNoiseIso :: real
  lossyModular :: bool
  lossless :: bool
  bitDepth :: int32_t
  inputType :: int32_t
  numChannels :: int32_t
  colorSpace :: int32_t
  premultipliedAlpha :: bool

text \<open>
  The functions of libjxl that fill a struct and touch no encoder: the two colour encoding
  setters (they receive the struct to overwrite and \<open>is_gray\<close>) and the two initialisers.
  They are parameters of the model.
\<close>

record libjxl =
  JxlColorEncodingSetToSRGB :: "JxlColorEncoding \<Rightarrow> bool \<Rightarrow> JxlColorEncoding"
  JxlColorEncodingSetToLinearSRGB :: "JxlColorEncoding \<Rightarrow> bool \<Rightarrow> JxlColorEncoding"
  JxlEncoderInitBasicInfo :: JxlBasicInfo
  JxlEncoderInitExtraChannelInfo :: "JxlExtraChannelType \<Rightarrow> JxlExtraChannelInfo"

text \<open>
  \<open>SetupColorEncoding\<close>, lines 68--103.  The struct behind the pointer is passed in and
  returned, next to the boolean result.  The parameter \<open>color_space\<close> of the source is
  \<open>color_space_id\<close> here, since \<open>color_space\<close> is a field of the struct.
\<close>

definition SetupColorEncoding ::
  "libjxl \<Rightarrow> int32_t \<Rightarrow> int32_t \<Rightarrow> JxlColorEncoding \<Rightarrow> bool \<times> JxlColorEncoding" where
  "SetupColorEncoding lib color_space_id input_type color_encoding =
     (if color_space_id = 0 then
        (if input_type = 2
         then (True, JxlColorEncodingSetToLinearSRGB lib color_encoding False)
         else (True, JxlColorEncodingSetToSRGB lib color_encoding False))
      else
        let color_encoding = color_encoding
              \<lparr> color_space := JXL_COLOR_SPACE_RGB,
                white_point := JXL_WHITE_POINT_D65,
                rendering_intent := JXL_RENDERING_INTENT_PERCEPTUAL \<rparr>
        in if color_space_id = 1 then
             (True, color_encoding
                \<lparr> primaries := JXL_PRIMARIES_P3,
                  transfer_function :=
                    (if input_type = 2 then JXL_TRANSFER_FUNCTION_LINEAR
                     else JXL_TRANSFER_FUNCTION_SRGB) \<rparr>)
           else if color_space_id = 2 then
             (True, color_encoding
                \<lparr> primaries := JXL_PRIMARIES_2100,
                  transfer_function := JXL_TRANSFER_FUNCTION_PQ \<rparr>)
           else if color_space_id = 3 then
             (True, color_encoding
                \<lparr> primaries := JXL_PRIMARIES_2100,
                  transfer_function := JXL_TRANSFER_FUNCTION_HLG \<rparr>)
           else (False, color_encoding))"

subsection \<open>Calls on the encoder\<close>

text \<open>
  The calls \<open>encode\<close> makes on the encoder, the thread runner and the frame settings, with
  the arguments this code chooses.  The answer to a call carries the status it returned,
  whether a returned handle was non-null, the codestream level, and the bytes written
  through \<open>next_out\<close>; a call reads the part that applies to it.
\<close>

datatype encoder_call =
    JxlEncoderCreate
  | JxlThreadParallelRunnerCreate
  | JxlEncoderSetParallelRunner
  | JxlEncoderSetBasicInfo JxlBasicInfo
  | JxlEncoderGetRequiredCodestreamLevel
  | JxlEncoderSetCodestreamLevel int32_t
  | JxlEncoderSetExtraChannelInfo size_t JxlExtraChannelInfo
  | JxlEncoderSetColorEncoding JxlColorEncoding
  | JxlEncoderFrameSettingsCreate
  | JxlEncoderFrameSettingsSetOption JxlEncoderFrameSettingId int32_t
  | JxlEncoderSetFrameLossless bool
  | JxlEncoderSetFrameDistance real
  | JxlEncoderAddImageFrame JxlPixelFormat "uint8_t list"
  | JxlEncoderCloseInput
  | JxlEncoderProcessOutput nat

record encoder_response =
  returned_status :: JxlEncoderStatus
  returned_handle :: bool
  returned_level :: int32_t
  written :: "uint8_t list"

text \<open>
  \<open>encode\<close> runs against a script: the answers of the codec to its successive calls.  The
  state is the rest of the script and the calls made so far.  A computation returns a
  value, returns \<open>val::null()\<close> (\<open>ReturnNull\<close>), or is still running when the script ends
  (\<open>Pending\<close>): the script is the fuel of the output loop, which runs for as long as the
  codec asks for more output.
\<close>

datatype 'a outcome = Return 'a | ReturnNull | Pending

type_synonym enc_state = "encoder_response list \<times> encoder_call list"
type_synonym 'a enc = "enc_state \<Rightarrow> 'a outcome \<times> enc_state"

definition enc_return :: "'a \<Rightarrow> 'a enc" where
  "enc_return x s = (Return x, s)"

definition enc_null :: "'a enc" where
  "enc_null s = (ReturnNull, s)"

definition enc_bind :: "'a enc \<Rightarrow> ('a \<Rightarrow> 'b enc) \<Rightarrow> 'b enc" where
  "enc_bind m f s =
     (case m s of
        (Return x, s') \<Rightarrow> f x s'
      | (ReturnNull, s') \<Rightarrow> (ReturnNull, s')
      | (Pending, s') \<Rightarrow> (Pending, s'))"

fun enc_call :: "encoder_call \<Rightarrow> encoder_response enc" where
  "enc_call c ([], calls) = (Pending, ([], calls @ [c]))"
| "enc_call c (r # script, calls) = (Return r, (script, calls @ [c]))"

text \<open>\<open>if (!ok) return val::null();\<close>\<close>

definition enc_expect :: "bool \<Rightarrow> unit enc" where
  "enc_expect ok = (if ok then enc_return () else enc_null)"

text \<open>\<open>if (c) { m }\<close>\<close>

definition enc_when :: "bool \<Rightarrow> unit enc \<Rightarrow> unit enc" where
  "enc_when c m = (if c then m else enc_return ())"

text \<open>Statements in sequence: the first that returns ends the function.\<close>

fun enc_seq :: "unit enc list \<Rightarrow> unit enc" where
  "enc_seq [] = enc_return ()"
| "enc_seq (m # ms) = enc_bind m (\<lambda>_. enc_seq ms)"

text \<open>\<open>if (call(...) != JXL_ENC_SUCCESS) return val::null();\<close>\<close>

definition enc_success :: "encoder_call \<Rightarrow> unit enc" where
  "enc_success c = enc_bind (enc_call c) (\<lambda>r. enc_expect (returned_status r = JXL_ENC_SUCCESS))"

text \<open>\<open>SetFrameOption\<close>, lines 105--109.\<close>

definition SetFrameOption :: "JxlEncoderFrameSettingId \<Rightarrow> int32_t \<Rightarrow> bool enc" where
  "SetFrameOption option v =
     enc_bind (enc_call (JxlEncoderFrameSettingsSetOption option v))
       (\<lambda>r. enc_return (returned_status r = JXL_ENC_SUCCESS))"

text \<open>\<open>std::clamp\<close> on \<open>int\<close> and on \<open>float\<close>.\<close>

definition clamp_int :: "int32_t \<Rightarrow> int32_t \<Rightarrow> int32_t \<Rightarrow> int32_t" where
  "clamp_int v lo hi = (if v <s lo then lo else if hi <s v then hi else v)"

definition clamp_float :: "real \<Rightarrow> real \<Rightarrow> real \<Rightarrow> real" where
  "clamp_float v lo hi = (if v < lo then lo else if hi < v then hi else v)"

text \<open>
  The value of the local \<open>distance\<close> that lines 271--285 of \<open>encode\<close> compute from
  \<open>options.quality\<close>.
\<close>

definition distance_of_quality :: "float_ops \<Rightarrow> real \<Rightarrow> real" where
  "distance_of_quality fl q =
     (let quality = clamp_float q 0 100
      in if quality \<ge> 100 then 0
         else if quality \<ge> 30
           then rnd fl (rnd fl 0.1 + rnd fl (rnd fl (100 - quality) * rnd fl 0.09))
         else rnd fl (rnd fl 6.4
                + rnd fl (powf fl 2.5 (rnd fl (rnd fl (30 - quality) / 5)) / 6.25)))"

subsection \<open>The output loop\<close>

text \<open>
  The vector \<open>compressed\<close> and the two locals the codec advances, \<open>next_out\<close> (as an offset
  into the vector) and \<open>avail_out\<close>.
\<close>

record output_buffer =
  compressed :: "uint8_t list"
  next_out :: nat
  avail_out :: nat

text \<open>\<open>std::vector::resize\<close>: new elements are zero.\<close>

definition resize :: "nat \<Rightarrow> 'a::zero list \<Rightarrow> 'a list" where
  "resize n xs = take n xs @ replicate (n - length xs) 0"

text \<open>
  What \<open>JxlEncoderProcessOutput\<close> does to the buffer: it writes its bytes at \<open>next_out\<close>,
  advances \<open>next_out\<close> and reduces \<open>avail_out\<close> by their number.  The codec must not write
  more than \<open>avail_out\<close> bytes; the theorems about the loop assume it.
\<close>

definition engine_output :: "encoder_response \<Rightarrow> output_buffer \<Rightarrow> output_buffer" where
  "engine_output r buf =
     buf \<lparr> compressed := take (next_out buf) (compressed buf) @ written r
                           @ drop (next_out buf + length (written r)) (compressed buf),
           next_out := next_out buf + length (written r),
           avail_out := avail_out buf - length (written r) \<rparr>"

text \<open>Lines 311--314, the branch for \<open>JXL_ENC_NEED_MORE_OUTPUT\<close>.\<close>

definition grow_output :: "output_buffer \<Rightarrow> output_buffer" where
  "grow_output buf =
     (let offset = next_out buf;
          buf = buf \<lparr> compressed := resize (length (compressed buf) * 2) (compressed buf) \<rparr>;
          buf = buf \<lparr> next_out := offset \<rparr>;
          buf = buf \<lparr> avail_out := length (compressed buf) - offset \<rparr>
      in buf)"

text \<open>The loop of lines 306--324.\<close>

fun collect_output_loop :: "output_buffer \<Rightarrow> uint8_t list enc" where
  "collect_output_loop buf ([], calls) =
     (Pending, ([], calls @ [JxlEncoderProcessOutput (avail_out buf)]))"
| "collect_output_loop buf (r # script, calls) =
     (let calls = calls @ [JxlEncoderProcessOutput (avail_out buf)];
          buf = engine_output r buf
      in if returned_status r = JXL_ENC_NEED_MORE_OUTPUT
         then collect_output_loop (grow_output buf) (script, calls)
         else if returned_status r \<noteq> JXL_ENC_SUCCESS then (ReturnNull, (script, calls))
         else (Return (resize (next_out buf) (compressed buf)), (script, calls)))"

text \<open>Lines 302--304.\<close>

definition initial_output_buffer :: output_buffer where
  "initial_output_buffer =
     \<lparr> compressed = replicate 8192 0, next_out = 0, avail_out = 8192 \<rparr>"

text \<open>Lines 302--326: the bytes handed to \<open>Uint8Array.new_\<close>.\<close>

definition collect_output :: "uint8_t list enc" where
  "collect_output = collect_output_loop initial_output_buffer"

subsection \<open>encode\<close>

definition zero_color_encoding :: JxlColorEncoding where
  "zero_color_encoding =
     \<lparr> color_space = JXL_COLOR_SPACE_RGB, white_point = JxlWhitePoint_0,
       primaries = JxlPrimaries_0, transfer_function = JxlTransferFunction_0,
       rendering_intent = JXL_RENDERING_INTENT_PERCEPTUAL \<rparr>"

text \<open>Lines 164--177: the local \<open>basic_info\<close>.\<close>

definition encode_basic_info :: "libjxl \<Rightarrow> int32_t \<Rightarrow> int32_t \<Rightarrow> JXLOptions \<Rightarrow> JxlBasicInfo" where
  "encode_basic_info lib width height options =
     (let basic_info = JxlEncoderInitBasicInfo lib;
          basic_info = basic_info \<lparr> xsize := width \<rparr>;
          basic_info = basic_info \<lparr> ysize := height \<rparr>;
          basic_info = basic_info \<lparr> JxlBasicInfo.bits_per_sample := bitDepth options \<rparr>;
          basic_info = basic_info \<lparr> JxlBasicInfo.exponent_bits_per_sample :=
                         (if inputType options = 2 then 8 else 0) \<rparr>;
          basic_info = basic_info \<lparr> num_color_channels := 3 \<rparr>;
          basic_info = basic_info \<lparr> num_extra_channels :=
                         (if numChannels options = 4 then 1 else 0) \<rparr>;
          basic_info = basic_info \<lparr> alpha_bits :=
                         (if numChannels options = 4
                          then JxlBasicInfo.bits_per_sample basic_info else 0) \<rparr>;
          basic_info = basic_info \<lparr> alpha_exponent_bits :=
                         (if numChannels options = 4
                          then JxlBasicInfo.exponent_bits_per_sample basic_info else 0) \<rparr>;
          basic_info = basic_info \<lparr> JxlBasicInfo.alpha_premultiplied :=
                         (numChannels options = 4 \<and> premultipliedAlpha options) \<rparr>;
          basic_info = basic_info \<lparr> uses_original_profile := True \<rparr>
      in basic_info)"

text \<open>Lines 193--197: the local \<open>alpha_info\<close>.\<close>

definition encode_alpha_info :: "libjxl \<Rightarrow> JxlBasicInfo \<Rightarrow> JxlExtraChannelInfo" where
  "encode_alpha_info lib basic_info =
     (let alpha_info = JxlEncoderInitExtraChannelInfo lib JXL_CHANNEL_ALPHA;
          alpha_info = alpha_info \<lparr> JxlExtraChannelInfo.bits_per_sample := alpha_bits basic_info \<rparr>;
          alpha_info = alpha_info \<lparr> JxlExtraChannelInfo.exponent_bits_per_sample :=
                         alpha_exponent_bits basic_info \<rparr>;
          alpha_info = alpha_info \<lparr> JxlExtraChannelInfo.alpha_premultiplied :=
                         JxlBasicInfo.alpha_premultiplied basic_info \<rparr>
      in alpha_info)"

text \<open>
  Lines 266--290: the lossless flag, or the distance.  With quality at least 100 and
  \<open>lossyModular\<close> set, modular mode is requested before the distance is set.
\<close>

definition encode_fidelity :: "float_ops \<Rightarrow> JXLOptions \<Rightarrow> unit enc" where
  "encode_fidelity fl options =
     (if lossless options then enc_success (JxlEncoderSetFrameLossless True)
      else enc_seq
        [ enc_when (clamp_float (quality options) 0 100 \<ge> 100 \<and> lossyModular options)
            (enc_bind (SetFrameOption JXL_ENC_FRAME_SETTING_MODULAR 1) enc_expect),
          enc_success (JxlEncoderSetFrameDistance (distance_of_quality fl (quality options))) ])"

text \<open>
  Lines 144--326 of \<open>encode\<close>: everything after the validation.  \<open>pthreads\<close> says whether
  the build defines \<open>__EMSCRIPTEN_PTHREADS__\<close>.  \<open>std::round\<close> of a positive number is
  \<open>round\<close>.
\<close>

definition encode_engine ::
  "float_ops \<Rightarrow> bool \<Rightarrow> libjxl \<Rightarrow> uint8_t list \<Rightarrow> int32_t \<Rightarrow> int32_t \<Rightarrow> JXLOptions \<Rightarrow> JxlDataType
     \<Rightarrow> uint8_t list enc" where
  "encode_engine fl pthreads lib image_data width height options data_type =
     (let basic_info = encode_basic_info lib width height options
      in enc_bind (enc_seq
        [ enc_bind (enc_call JxlEncoderCreate) (\<lambda>encoder. enc_expect (returned_handle encoder)),
          enc_when pthreads (enc_seq
            [ enc_bind (enc_call JxlThreadParallelRunnerCreate)
                (\<lambda>runner. enc_expect (returned_handle runner)),
              enc_success JxlEncoderSetParallelRunner ]),
          enc_success (JxlEncoderSetBasicInfo basic_info),
          enc_bind (enc_call JxlEncoderGetRequiredCodestreamLevel)
            (\<lambda>r. let required_level = returned_level r
                 in if required_level <s 0 then enc_null
                    else enc_when (required_level = 10)
                           (enc_success (JxlEncoderSetCodestreamLevel 10))),
          enc_when (numChannels options = 4)
            (enc_success (JxlEncoderSetExtraChannelInfo 0 (encode_alpha_info lib basic_info))),
          (case SetupColorEncoding lib (colorSpace options) (inputType options) zero_color_encoding of
             (ok, color_encoding) \<Rightarrow>
               if \<not> ok then enc_null
               else enc_success (JxlEncoderSetColorEncoding color_encoding)),
          enc_bind (enc_call JxlEncoderFrameSettingsCreate)
            (\<lambda>frame_settings. enc_expect (returned_handle frame_settings)),
          enc_bind (SetFrameOption JXL_ENC_FRAME_SETTING_EFFORT (clamp_int (effort options) 1 9))
            enc_expect,
          (let decoding_speed = (ucast (min (decodingSpeedTier options) 4) :: int32_t)
           in enc_bind (SetFrameOption JXL_ENC_FRAME_SETTING_DECODING_SPEED
                          (clamp_int decoding_speed 0 4))
                enc_expect),
          enc_when (- 1 \<le>s epf options \<and> epf options \<le>s 3)
            (enc_bind (SetFrameOption JXL_ENC_FRAME_SETTING_EPF (epf options)) enc_expect),
          enc_when (photonNoiseIso options > 0)
            (enc_bind (SetFrameOption JXL_ENC_FRAME_SETTING_PHOTON_NOISE
                         (word_of_int (round (photonNoiseIso options))))
               enc_expect),
          enc_when (lossyPalette options) (enc_seq
            [ enc_bind (SetFrameOption JXL_ENC_FRAME_SETTING_LOSSY_PALETTE 1) enc_expect,
              enc_bind (SetFrameOption JXL_ENC_FRAME_SETTING_PALETTE_COLORS 0) enc_expect,
              enc_bind (SetFrameOption JXL_ENC_FRAME_SETTING_MODULAR 1) enc_expect ]),
          enc_when (lossyModular options)
            (enc_bind (SetFrameOption JXL_ENC_FRAME_SETTING_MODULAR 1) enc_expect),
          enc_when (progressive options) (enc_seq
            [ enc_bind (SetFrameOption JXL_ENC_FRAME_SETTING_QPROGRESSIVE_AC 1) enc_expect,
              enc_bind (SetFrameOption JXL_ENC_FRAME_SETTING_RESPONSIVE 1) enc_expect,
              enc_when (\<not> lossyModular options)
                (enc_bind (SetFrameOption JXL_ENC_FRAME_SETTING_PROGRESSIVE_DC 1) enc_expect) ]),
          encode_fidelity fl options,
          (let pixel_format = JxlPixelFormat (numChannels options) data_type JXL_NATIVE_ENDIAN 0
           in enc_success (JxlEncoderAddImageFrame pixel_format image_data)),
          enc_bind (enc_call JxlEncoderCloseInput) (\<lambda>_. enc_return ()) ])
        (\<lambda>_. collect_output))"

text \<open>
  \<open>encode\<close>, lines 111--327: the result and the calls made on the codec.  \<open>image_data\<close>
  is the parameter \<open>image\<close>; the length of a \<open>std::string\<close> fits \<open>size_t\<close>, so
  \<open>expected_size != image.size()\<close> compares the two as numbers.
\<close>

definition encode ::
  "float_ops \<Rightarrow> bool \<Rightarrow> libjxl \<Rightarrow> encoder_response list \<Rightarrow> uint8_t list \<Rightarrow> int32_t \<Rightarrow> int32_t \<Rightarrow> JXLOptions
     \<Rightarrow> uint8_t list outcome \<times> encoder_call list" where
  "encode fl pthreads lib script image_data width height options =
     (if width \<le>s 0 \<or> height \<le>s 0 then (ReturnNull, [])
      else if numChannels options \<noteq> 3 \<and> numChannels options \<noteq> 4 then (ReturnNull, [])
      else if \<not> IsSupportedCombination (inputType options) (bitDepth options)
        then (ReturnNull, [])
      else
        let data_type =
              (if inputType options = 1 then JXL_TYPE_UINT16
               else if inputType options = 2 then JXL_TYPE_FLOAT
               else JXL_TYPE_UINT8);
            bytes_per_sample =
              (if inputType options = 1 then 2
               else if inputType options = 2 then 4
               else (1 :: size_t))
        in case ComputeExpectedSize width height (numChannels options) bytes_per_sample of
             None \<Rightarrow> (ReturnNull, [])
           | Some expected_size \<Rightarrow>
               if unat expected_size \<noteq> length image_data then (ReturnNull, [])
               else
                 (let run = encode_engine fl pthreads lib image_data width height options data_type
                              (script, [])
                  in (fst run, snd (snd run))))"

section \<open>Sample inputs\<close>

text \<open>
  A run of the decoder on a 1x1 image with the given bit depth and exponent bits and no
  ICC profile; every call succeeds, \<open>skcms_Parse\<close> answers \<open>parses\<close>.
\<close>

definition sample_run ::
  "uint32_t \<Rightarrow> uint32_t \<Rightarrow> bool \<Rightarrow> real list \<Rightarrow> uint8_t list \<Rightarrow> decoder_run" where
  "sample_run bits exp_bits parses pixels input =
     \<lparr> JxlDecoderSubscribeEvents = JXL_DEC_SUCCESS,
       JxlDecoderProcessInput_1 = JXL_DEC_BASIC_INFO,
       JxlDecoderGetBasicInfo = (JXL_DEC_SUCCESS,
         \<lparr> xsize = 1, ysize = 1, JxlBasicInfo.bits_per_sample = bits,
           JxlBasicInfo.exponent_bits_per_sample = exp_bits,
           num_color_channels = 3, num_extra_channels = 1, alpha_bits = bits,
           alpha_exponent_bits = exp_bits, JxlBasicInfo.alpha_premultiplied = False,
           uses_original_profile = True \<rparr>),
       JxlDecoderProcessInput_2 = JXL_DEC_COLOR_ENCODING,
       JxlDecoderGetICCProfileSize = (JXL_DEC_SUCCESS, 0),
       JxlDecoderGetColorAsICCProfile = (JXL_DEC_SUCCESS, []),
       JxlDecoderProcessInput_3 = JXL_DEC_NEED_IMAGE_OUT_BUFFER,
       JxlDecoderImageOutBufferSize = (JXL_DEC_SUCCESS, 16),
       JxlDecoderSetImageOutBuffer = JXL_DEC_SUCCESS,
       JxlDecoderProcessInput_4 = (JXL_DEC_FULL_IMAGE, pixels),
       skcms_Parse = (\<lambda>profile. parses),
       skcms_Transform = (\<lambda>src alpha profile n. (True, replicate (4 * n) 128)) \<rparr>"

text \<open>The same run when the codec reports the ICC profile \<open>profile\<close>.\<close>

definition sample_run_icc ::
  "uint32_t \<Rightarrow> uint32_t \<Rightarrow> uint8_t list \<Rightarrow> bool \<Rightarrow> real list \<Rightarrow> uint8_t list \<Rightarrow> decoder_run" where
  "sample_run_icc bits exp_bits profile parses pixels input =
     (sample_run bits exp_bits parses pixels input)
       \<lparr> JxlDecoderGetICCProfileSize := (JXL_DEC_SUCCESS, of_nat (length profile)),
         JxlDecoderGetColorAsICCProfile := (JXL_DEC_SUCCESS, profile) \<rparr>"

text \<open>The options of the end-to-end example of the specification: a 3x2 RGB image of
  \<open>uint8\<close> samples, effort 7, quality 90, sRGB.\<close>

definition sample_options :: JXLOptions where
  "sample_options =
     \<lparr> effort = 7, quality = 90, progressive = False, epf = - 1, lossyPalette = False,
       decodingSpeedTier = 0, photonNoiseIso = 0, lossyModular = False, lossless = False,
       bitDepth = 8, inputType = 0, numChannels = 3, colorSpace = 0,
       premultipliedAlpha = False \<rparr>"

definition sample_libjxl :: libjxl where
  "sample_libjxl =
     \<lparr> JxlColorEncodingSetToSRGB = (\<lambda>c is_gray.
         \<lparr> color_space = JXL_COLOR_SPACE_RGB, white_point = JXL_WHITE_POINT_D65,
           primaries = JXL_PRIMARIES_SRGB, transfer_function = JXL_TRANSFER_FUNCTION_SRGB,
           rendering_intent = JXL_RENDERING_INTENT_RELATIVE \<rparr>),
       JxlColorEncodingSetToLinearSRGB = (\<lambda>c is_gray.
         \<lparr> color_space = JXL_COLOR_SPACE_RGB, white_point = JXL_WHITE_POINT_D65,
           primaries = JXL_PRIMARIES_SRGB, transfer_function = JXL_TRANSFER_FUNCTION_LINEAR,
           rendering_intent = JXL_RENDERING_INTENT_RELATIVE \<rparr>),
       JxlEncoderInitBasicInfo =
         \<lparr> xsize = 0, ysize = 0, JxlBasicInfo.bits_per_sample = 8,
           JxlBasicInfo.exponent_bits_per_sample = 0,
           num_color_channels = 3, num_extra_channels = 0, alpha_bits = 0,
           alpha_exponent_bits = 0, JxlBasicInfo.alpha_premultiplied = False,
           uses_original_profile = False \<rparr>,
       JxlEncoderInitExtraChannelInfo = (\<lambda>t.
         \<lparr> channel_type = t, JxlExtraChannelInfo.bits_per_sample = 8,
           JxlExtraChannelInfo.exponent_bits_per_sample = 0,
           JxlExtraChannelInfo.alpha_premultiplied = False \<rparr>) \<rparr>"

definition engine_says :: "JxlEncoderStatus \<Rightarrow> uint8_t list \<Rightarrow> encoder_response" where
  "engine_says st bytes =
     \<lparr> returned_status = st, returned_handle = True, returned_level = 5, written = bytes \<rparr>"

definition engine_ok :: encoder_response where
  "engine_ok = engine_says JXL_ENC_SUCCESS []"

text \<open>Eleven calls succeed; the codec then asks for more output once and finishes.\<close>

definition sample_script :: "encoder_response list" where
  "sample_script =
     [engine_ok, engine_ok, engine_ok, engine_ok, engine_ok, engine_ok, engine_ok, engine_ok,
      engine_ok, engine_ok, engine_ok,
      engine_says JXL_ENC_NEED_MORE_OUTPUT [1, 2, 3], engine_says JXL_ENC_SUCCESS [4, 5]]"

section \<open>Notions used in the statements and proofs\<close>

text \<open>
  \<open>adds P m\<close>: the computation \<open>m\<close> only appends to the calls made so far, and every call
  it appends satisfies \<open>P\<close>.  \<open>must c m\<close>: whenever \<open>m\<close> returns a value, the call \<open>c\<close> has
  been made.  \<open>starts c m\<close>: run with no call made so far, \<open>m\<close> makes the call \<open>c\<close> first.
\<close>

definition adds :: "(encoder_call \<Rightarrow> bool) \<Rightarrow> 'a enc \<Rightarrow> bool" where
  "adds P m \<longleftrightarrow>
     (\<forall>script calls. \<exists>ext. snd (snd (m (script, calls))) = calls @ ext \<and> list_all P ext)"

definition must :: "encoder_call \<Rightarrow> 'a enc \<Rightarrow> bool" where
  "must c m \<longleftrightarrow> (\<forall>s x s'. m s = (Return x, s') \<longrightarrow> c \<in> set (snd s'))"

definition starts :: "encoder_call \<Rightarrow> 'a enc \<Rightarrow> bool" where
  "starts c m \<longleftrightarrow> (\<forall>script. \<exists>ext. snd (snd (m (script, []))) = c # ext)"

text \<open>
  The answers of the codec under which \<open>decodeHighBitDepth\<close> goes through every check it
  makes up to the full image: each call returns the status the code expects (the profile
  is fetched only when its size is positive), and the reported size of the output buffer
  is the one the code computed.
\<close>

definition decoder_calls_succeed :: "decoder_run \<Rightarrow> bool" where
  "decoder_calls_succeed dec \<longleftrightarrow>
     JxlDecoderSubscribeEvents dec = JXL_DEC_SUCCESS
   \<and> JxlDecoderProcessInput_1 dec = JXL_DEC_BASIC_INFO
   \<and> fst (JxlDecoderGetBasicInfo dec) = JXL_DEC_SUCCESS
   \<and> JxlDecoderProcessInput_2 dec = JXL_DEC_COLOR_ENCODING
   \<and> fst (JxlDecoderGetICCProfileSize dec) = JXL_DEC_SUCCESS
   \<and> (snd (JxlDecoderGetICCProfileSize dec) > 0 \<longrightarrow>
        fst (JxlDecoderGetColorAsICCProfile dec) = JXL_DEC_SUCCESS)
   \<and> JxlDecoderProcessInput_3 dec = JXL_DEC_NEED_IMAGE_OUT_BUFFER
   \<and> fst (JxlDecoderImageOutBufferSize dec) = JXL_DEC_SUCCESS
   \<and> snd (JxlDecoderImageOutBufferSize dec)
       = (ucast (xsize (snd (JxlDecoderGetBasicInfo dec))
                 * ysize (snd (JxlDecoderGetBasicInfo dec))) :: size_t)
         * COMPONENTS_PER_PIXEL * 4
   \<and> JxlDecoderSetImageOutBuffer dec = JXL_DEC_SUCCESS
   \<and> fst (JxlDecoderProcessInput_4 dec) = JXL_DEC_FULL_IMAGE"

text \<open>
  An answer of the encoder with which no check of \<open>encode\<close> fails: the status is success,
  a returned handle is not null and the codestream level is not negative.
  \<open>answered k script\<close>: the codec answers at least \<open>k\<close> calls, and the first \<open>k\<close> with
  success.  \<open>passes k m\<close>: when the next \<open>k\<close> calls are so answered, \<open>m\<close> makes at most \<open>k\<close>
  calls and goes on to the next statement.  \<open>reaches k c m\<close>: when the next \<open>k\<close> calls are
  so answered, \<open>m\<close> makes the call \<open>c\<close>.
\<close>

definition call_succeeds :: "encoder_response \<Rightarrow> bool" where
  "call_succeeds r \<longleftrightarrow>
     returned_status r = JXL_ENC_SUCCESS \<and> returned_handle r \<and> \<not> returned_level r <s 0"

definition answered :: "nat \<Rightarrow> encoder_response list \<Rightarrow> bool" where
  "answered k script \<longleftrightarrow> k \<le> length script \<and> list_all call_succeeds (take k script)"

definition passes :: "nat \<Rightarrow> unit enc \<Rightarrow> bool" where
  "passes k m \<longleftrightarrow>
     (\<forall>script calls. answered k script \<longrightarrow>
        (\<exists>j ext. j \<le> k \<and> m (script, calls) = (Return (), (drop j script, calls @ ext))))"

definition reaches :: "nat \<Rightarrow> encoder_call \<Rightarrow> 'a enc \<Rightarrow> bool" where
  "reaches k c m \<longleftrightarrow>
     (\<forall>script calls. answered k script \<longrightarrow> c \<in> set (snd (snd (m (script, calls)))))"

text \<open>
  The specification's growth rule, written from its words: a buffer of the given capacity
  holding \<open>offset\<close> bytes offers \<open>capacity - offset\<close> bytes to the next call; after a call
  that wrote \<open>n\<close> bytes and asked for more, the capacity is doubled and the offset has
  advanced by \<open>n\<close>.  The result lists what successive calls are offered.
\<close>

fun avail_sequence :: "nat \<Rightarrow> nat \<Rightarrow> nat list \<Rightarrow> nat list" where
  "avail_sequence capacity offset [] = []"
| "avail_sequence capacity offset (n # ns) =
     (capacity - offset) # avail_sequence (2 * capacity) (offset + n) ns"

section \<open>Properties of the size validation\<close>

lemma unat_max_size: "unat (- 1 :: 's::len word) = 2 ^ LENGTH('s) - 1"
  by (simp add: unsigned_minus_1_eq_mask mask_eq_exp_minus_1)

lemma gt_max_div_iff:
  fixes a b :: "'s::len word"
  assumes "b \<noteq> 0"
  shows "a > (- 1) div b \<longleftrightarrow> unat a * unat b > 2 ^ LENGTH('s) - 1"
proof -
  have b: "0 < unat b" using assms by (simp add: unat_gt_0)
  have "a > (- 1) div b \<longleftrightarrow> unat a > (2 ^ LENGTH('s) - 1) div unat b"
    by (simp add: word_less_nat_alt unat_div unat_max_size)
  also have "\<dots> \<longleftrightarrow> \<not> unat a \<le> (2 ^ LENGTH('s) - 1) div unat b" by auto
  also have "\<dots> \<longleftrightarrow> \<not> unat a * unat b \<le> 2 ^ LENGTH('s) - 1"
    using b by (simp add: less_eq_div_iff_mult_less_eq)
  finally show ?thesis by auto
qed

lemma unat_mult_fits:
  fixes a b :: "'s::len word"
  assumes "unat a * unat b \<le> 2 ^ LENGTH('s) - 1"
  shows "unat (a * b) = unat a * unat b"
proof -
  have "(0::nat) < 2 ^ LENGTH('s)" by simp
  with assms have "unat a * unat b < 2 ^ LENGTH('s)" by linarith
  then show ?thesis by (simp add: unat_word_ariths)
qed

lemma pow32_le: "32 \<le> LENGTH('s::len) \<Longrightarrow> (2::nat) ^ 32 \<le> 2 ^ LENGTH('s)"
  by (rule power_increasing) simp_all

lemma unat_ucast_width:
  fixes w :: "32 word"
  assumes "32 \<le> LENGTH('s::len)"
  shows "unat (ucast w :: 's word) = unat w"
proof -
  have "unat w < 2 ^ 32" using unsigned_less [of w] by simp
  also note pow32_le [OF assms]
  finally show ?thesis by (simp add: unsigned_ucast_eq take_bit_nat_eq_self)
qed

lemma unat_scast_channels:
  fixes c :: "32 word"
  assumes "32 \<le> LENGTH('s::len)" and "\<not> c \<le>s 0"
  shows "unat (scast c :: 's word) = nat (sint c)"
proof -
  have pos: "0 < sint c" using assms(2) by (simp add: word_sle_eq)
  have "sint c < 2 ^ 31" using sint_lt [of c] by simp
  then have "nat (sint c) < 2 ^ 32" by simp
  also note pow32_le [OF assms(1)]
  finally have lt: "nat (sint c) < 2 ^ LENGTH('s)" .
  have "(scast c :: 's word) = of_nat (nat (sint c))"
    using pos by (simp add: of_nat_nat)
  then show ?thesis using lt by (simp add: unat_of_nat)
qed

lemma ComputeExpectedSize_guard:
  "width = 0 \<or> height = 0 \<or> num_channels \<le>s 0 \<or> bytes_per_sample = 0 \<Longrightarrow>
   ComputeExpectedSize width height num_channels bytes_per_sample = None"
  by (simp add: ComputeExpectedSize_def)

lemma ComputeExpectedSize_positive:
  fixes bytes_per_sample :: "'s::len word"
  assumes len: "32 \<le> LENGTH('s)"
    and w: "width \<noteq> 0" and h: "height \<noteq> 0"
    and c: "\<not> num_channels \<le>s 0" and b: "bytes_per_sample \<noteq> 0"
  shows "ComputeExpectedSize width height num_channels bytes_per_sample =
         (if unat width * unat height * nat (sint num_channels) * unat bytes_per_sample
               \<le> 2 ^ LENGTH('s) - 1
          then Some (of_nat (unat width * unat height * nat (sint num_channels)
                      * unat bytes_per_sample))
          else None)"
proof -
  define W where "W = unat width"
  define H where "H = unat height"
  define C where "C = nat (sint num_channels)"
  define B where "B = unat bytes_per_sample"
  define M :: nat where "M = 2 ^ LENGTH('s) - 1"
  let ?ws = "ucast width :: 's word"
  let ?hs = "ucast height :: 's word"
  let ?cs = "scast num_channels :: 's word"
  have uw: "unat ?ws = W" and uh: "unat ?hs = H"
    by (simp_all add: W_def H_def unat_ucast_width [OF len])
  have uc: "unat ?cs = C"
    by (simp add: C_def unat_scast_channels [OF len c])
  have Wpos: "0 < W" and Hpos: "0 < H" and Bpos: "0 < B"
    using w h b by (simp_all add: W_def H_def B_def unat_gt_0)
  have Cpos: "0 < C" using c by (simp add: C_def word_sle_eq)
  have hs0: "?hs \<noteq> 0" using uh Hpos by (metis unat_0 less_irrefl)
  have cs0: "?cs \<noteq> 0" using uc Cpos by (metis unat_0 less_irrefl)
  have t1: "?ws > (- 1) div ?hs \<longleftrightarrow> M < W * H"
    by (simp add: gt_max_div_iff [OF hs0] uw uh M_def)
  have mono1: "W * H \<le> W * H * C" using Cpos by simp
  have mono2: "W * H * C \<le> W * H * C * B" using Bpos by simp
  show ?thesis
  proof (cases "M < W * H")
    case True
    then have "M < W * H * C * B" using mono1 mono2 by linarith
    with True t1 w h c b show ?thesis
      by (simp add: ComputeExpectedSize_def Let_def W_def H_def C_def B_def M_def)
  next
    case f1: False
    then have up: "unat (?ws * ?hs) = W * H"
      using unat_mult_fits [of ?ws ?hs] by (simp add: uw uh M_def)
    have t2: "?ws * ?hs > (- 1) div ?cs \<longleftrightarrow> M < W * H * C"
      by (simp add: gt_max_div_iff [OF cs0] up uc M_def)
    show ?thesis
    proof (cases "M < W * H * C")
      case True
      then have "M < W * H * C * B" using mono2 by linarith
      with True f1 t1 t2 w h c b show ?thesis
        by (simp add: ComputeExpectedSize_def Let_def W_def H_def C_def B_def M_def)
    next
      case f2: False
      then have us: "unat (?ws * ?hs * ?cs) = W * H * C"
        using unat_mult_fits [of "?ws * ?hs" ?cs] by (simp add: up uc M_def)
      have t3: "?ws * ?hs * ?cs > (- 1) div bytes_per_sample \<longleftrightarrow> M < W * H * C * B"
        by (simp add: gt_max_div_iff [OF b] us M_def B_def)
      have res: "?ws * ?hs * ?cs * bytes_per_sample = of_nat (W * H * C * B)"
        by (simp flip: uw uh uc add: B_def)
      from f1 f2 t1 t2 t3 res w h c b show ?thesis
        by (simp add: ComputeExpectedSize_def Let_def W_def H_def C_def B_def M_def)
    qed
  qed
qed

text \<open>
  Claim C1, as stated, fails at the input \<open>(0, 3, 3, 1)\<close> on a 32-bit \<open>size_t\<close>: the true
  product is 0, which does not exceed the largest \<open>size_t\<close>, yet the function reports
  failure.
\<close>

theorem ComputeExpectedSize_zero_width_fails:
  "unat (0 :: uint32_t) * unat (3 :: uint32_t) * nat (sint (3 :: int32_t)) * unat (1 :: 32 word)
     \<le> unat (- 1 :: 32 word)
   \<and> ComputeExpectedSize 0 3 3 (1 :: 32 word) = None"
  by (simp add: ComputeExpectedSize_def)

text \<open>
  Claim C1, amended.  Let \<open>size_t\<close> be at least 32 bits wide.  When width, height and
  bytes-per-sample are nonzero and the channel count is positive, \<open>ComputeExpectedSize\<close>
  succeeds with exactly the product \<open>width * height * channels * bytesPerSample\<close> whenever
  that product (computed in the naturals) does not exceed the largest \<open>size_t\<close>, and reports
  failure whenever it does.  When one of the four is zero (or the channel count is negative)
  it reports failure.
\<close>

theorem ComputeExpectedSize_exact_product:
  fixes bytes_per_sample :: "'s::len word"
  assumes "32 \<le> LENGTH('s)"
  shows "(width \<noteq> 0 \<and> height \<noteq> 0 \<and> 0 <s num_channels \<and> bytes_per_sample \<noteq> 0 \<longrightarrow>
            (unat width * unat height * nat (sint num_channels) * unat bytes_per_sample
               \<le> unat (- 1 :: 's word) \<longrightarrow>
             (\<exists>r. ComputeExpectedSize width height num_channels bytes_per_sample = Some r \<and>
                  unat r = unat width * unat height * nat (sint num_channels)
                           * unat bytes_per_sample)) \<and>
            (unat (- 1 :: 's word)
               < unat width * unat height * nat (sint num_channels) * unat bytes_per_sample \<longrightarrow>
             ComputeExpectedSize width height num_channels bytes_per_sample = None))
       \<and> (width = 0 \<or> height = 0 \<or> num_channels \<le>s 0 \<or> bytes_per_sample = 0 \<longrightarrow>
            ComputeExpectedSize width height num_channels bytes_per_sample = None)"
proof (intro conjI impI)
  assume pos: "width \<noteq> 0 \<and> height \<noteq> 0 \<and> 0 <s num_channels \<and> bytes_per_sample \<noteq> 0"
  then have c: "\<not> num_channels \<le>s 0" by (auto simp: word_sle_eq word_sless_alt)
  from pos have w: "width \<noteq> 0" and h: "height \<noteq> 0" and b: "bytes_per_sample \<noteq> 0"
    by simp_all
  let ?P = "unat width * unat height * nat (sint num_channels) * unat bytes_per_sample"
  note eq = ComputeExpectedSize_positive [OF assms w h c b]
  {
    assume "?P \<le> unat (- 1 :: 's word)"
    then have le: "?P \<le> 2 ^ LENGTH('s) - 1" by (simp only: unat_max_size)
    moreover have "(0::nat) < 2 ^ LENGTH('s)" by simp
    ultimately have lt: "?P < 2 ^ LENGTH('s)" by linarith
    have "unat (of_nat ?P :: 's word) = ?P mod 2 ^ LENGTH('s)" by (rule unat_of_nat)
    also have "\<dots> = ?P" using lt by (rule mod_less)
    finally have u: "unat (of_nat ?P :: 's word) = ?P" .
    from eq le
    have "ComputeExpectedSize width height num_channels bytes_per_sample = Some (of_nat ?P)"
      by (simp only: if_True)
    with u
    show "\<exists>r. ComputeExpectedSize width height num_channels bytes_per_sample = Some r \<and>
              unat r = ?P"
      by blast
  }
  {
    assume "unat (- 1 :: 's word) < ?P"
    then have "\<not> ?P \<le> 2 ^ LENGTH('s) - 1" by (simp only: unat_max_size not_le)
    with eq show "ComputeExpectedSize width height num_channels bytes_per_sample = None"
      by (simp only: if_False)
  }
next
  assume "width = 0 \<or> height = 0 \<or> num_channels \<le>s 0 \<or> bytes_per_sample = 0"
  then show "ComputeExpectedSize width height num_channels bytes_per_sample = None"
    by (rule ComputeExpectedSize_guard)
qed

theorem ComputeExpectedSize_exact_product_witness:
  "(\<exists>r. ComputeExpectedSize 3 2 3 (1 :: 32 word) = Some r \<and> unat r = 18)
   \<and> ComputeExpectedSize 65536 65536 3 (1 :: 32 word) = None
   \<and> (\<exists>r. ComputeExpectedSize 65536 65536 3 (1 :: 64 word) = Some r \<and> unat r = 12884901888)
   \<and> ComputeExpectedSize 3 0 3 (1 :: 32 word) = None"
  using ComputeExpectedSize_exact_product [where 's = 32, of 3 2 3 1]
    ComputeExpectedSize_exact_product [where 's = 32, of 65536 65536 3 1]
    ComputeExpectedSize_exact_product [where 's = 64, of 65536 65536 3 1]
    ComputeExpectedSize_exact_product [where 's = 32, of 3 0 3 1]
  by (simp add: word_sless_alt word_sle_eq unat_max_size)

section \<open>Properties of the decoder\<close>

lemmas decoder_defs =
  EXPECT_EQ_def EXPECT_TRUE_def COMPONENTS_PER_PIXEL_def written_into_def
  Object_set_def Object_new_def



text \<open>
  Claim C10.  Whenever \<open>decodeHighBitDepth\<close> or \<open>decodeLinearFloat\<close> returns an object, its
  \<open>colorSpace\<close> is the string \<open>linear\<close> if the bitstream reports
  \<open>exponent_bits_per_sample > 0\<close> and the string \<open>srgb\<close> otherwise, whatever ICC profile the
  codec reports and whatever skcms makes of it.
\<close>

theorem decoded_colorSpace_label:
  "(decodeHighBitDepth fl engine input = Some result \<longrightarrow>
      result ''colorSpace'' = Some (String
        (if JxlBasicInfo.exponent_bits_per_sample (snd (JxlDecoderGetBasicInfo (engine input))) > 0
         then ''linear'' else ''srgb'')))
   \<and> (decodeLinearFloat engine input = Some result \<longrightarrow>
      result ''colorSpace'' = Some (String
        (if JxlBasicInfo.exponent_bits_per_sample (snd (JxlDecoderGetBasicInfo (engine input))) > 0
         then ''linear'' else ''srgb'')))"
proof (intro conjI impI)
  assume "decodeHighBitDepth fl engine input = Some result"
  then show "result ''colorSpace'' = Some (String
        (if JxlBasicInfo.exponent_bits_per_sample (snd (JxlDecoderGetBasicInfo (engine input))) > 0
         then ''linear'' else ''srgb''))"
    by (auto simp: decodeHighBitDepth_def Let_def EXPECT_EQ_def EXPECT_TRUE_def Object_set_def
           split: if_splits Option.bind_splits)
next
  assume "decodeLinearFloat engine input = Some result"
  then show "result ''colorSpace'' = Some (String
        (if JxlBasicInfo.exponent_bits_per_sample (snd (JxlDecoderGetBasicInfo (engine input))) > 0
         then ''linear'' else ''srgb''))"
    by (auto simp: decodeLinearFloat_def Let_def EXPECT_EQ_def EXPECT_TRUE_def Object_set_def
           split: if_splits Option.bind_splits)
qed

theorem decoded_colorSpace_label_witness:
  "(decodeHighBitDepth exact_float (sample_run 16 8 False [1, 2, 3, 4]) [] \<bind> (\<lambda>r. r ''colorSpace''))
      = Some (String ''linear'')
   \<and> (decodeLinearFloat (sample_run 16 0 False [1, 2, 3, 4]) [] \<bind> (\<lambda>r. r ''colorSpace''))
      = Some (String ''srgb'')"
proof -
  obtain r1 where r1: "decodeHighBitDepth exact_float (sample_run 16 8 False [1, 2, 3, 4]) [] = Some r1"
    by (simp add: decodeHighBitDepth_def sample_run_def decoder_defs Let_def)
  obtain r2 where r2: "decodeLinearFloat (sample_run 16 0 False [1, 2, 3, 4]) [] = Some r2"
    by (simp add: decodeLinearFloat_def sample_run_def decoder_defs Let_def)
  show ?thesis
    using decoded_colorSpace_label [of exact_float "sample_run 16 8 False [1, 2, 3, 4]" "[]" r1]
      decoded_colorSpace_label [of exact_float "sample_run 16 0 False [1, 2, 3, 4]" "[]" r2]
    by (simp add: r1 r2 sample_run_def)
qed

lemma decodeHighBitDepth_fallback_runs:
  assumes "decoder_calls_succeed (engine input)"
    and "JxlBasicInfo.exponent_bits_per_sample (snd (JxlDecoderGetBasicInfo (engine input))) = 0"
    and "JxlBasicInfo.bits_per_sample (snd (JxlDecoderGetBasicInfo (engine input))) \<le> 8"
    and "\<not> (snd (JxlDecoderGetICCProfileSize (engine input)) > 0
           \<and> skcms_Parse (engine input)
                (written_into (unat (snd (JxlDecoderGetICCProfileSize (engine input))))
                   (snd (JxlDecoderGetColorAsICCProfile (engine input)))))"
  shows "\<exists>result. decodeHighBitDepth fl engine input = Some result
      \<and> result ''bitDepth'' = Some (Number 8)
      \<and> result ''data'' = Some (Uint8ClampedArray
           (map (\<lambda>v. word_of_int \<lfloor>rnd fl (max 0 (min 1 v) * 255)\<rfloor>)
             (written_into
                (unat ((ucast (xsize (snd (JxlDecoderGetBasicInfo (engine input)))
                              * ysize (snd (JxlDecoderGetBasicInfo (engine input)))) :: size_t)
                       * COMPONENTS_PER_PIXEL))
                (snd (JxlDecoderProcessInput_4 (engine input))))))"
proof (cases "snd (JxlDecoderGetICCProfileSize (engine input)) > 0")
  case True
  with assms show ?thesis
    by (simp add: decodeHighBitDepth_def decoder_calls_succeed_def Let_def EXPECT_EQ_def
        EXPECT_TRUE_def Object_set_def fallback_sample_def)
next
  case False
  with assms show ?thesis
    by (simp add: decodeHighBitDepth_def decoder_calls_succeed_def Let_def EXPECT_EQ_def
        EXPECT_TRUE_def Object_set_def fallback_sample_def)
qed

text \<open>
  Claim C5, as stated, fails for \<open>decode\<close>, the other 8-bit path of the decoder: on a run
  where every codec call succeeds and the profile does not parse, \<open>decode\<close> returns null
  and converts no sample, while it returns an image when the profile parses.
\<close>

theorem decode_without_profile_fails:
  "decode (sample_run 8 0 False [0.5, 0.25, 1.5, - 1]) [] = None
   \<and> decode (sample_run 8 0 True [0.5, 0.25, 1.5, - 1]) []
       = Some (ImageData (Uint8ClampedArray (replicate 4 128)) 1 1)"
  by (simp add: decode_def sample_run_def decoder_defs Let_def)

text \<open>
  Claim C5, amended.  In \<open>decodeHighBitDepth\<close>, when the effective bit depth is 8 and the ICC
  profile is empty or does not parse, each float sample is converted by the manual
  fallback of the loop, \<open>fallback_sample\<close>.  On this path the exponent bits are 0, so the
  fallback clamps the sample to \<open>[0, 1]\<close>, scales it by 255 and truncates it to a byte.
  The fallback does run: whenever the codec answers every call as the code expects, the
  bitstream reports no exponent bits and at most 8 bits per sample, and the profile is
  empty or does not parse, \<open>decodeHighBitDepth\<close> returns an object of bit depth 8 whose data
  are the samples so converted.
  Read in exact arithmetic, the fallback maps a sample \<open>v\<close> as follows: if the exponent bits
  are positive, the gamma curve (\<open>v \<le> 0.0031308\<close> gives \<open>12.92 * v\<close>, else
  \<open>1.055 * v powr (1 / 2.4) - 0.055\<close>) is applied and the value clamped to \<open>[0, 1]\<close> and
  scaled by 255; otherwise \<open>v\<close> is clamped to \<open>[0, 1]\<close> and scaled by 255; the result is
  truncated to a byte.  \<open>decode\<close> has no fallback: it returns an image only if the profile
  parses.
\<close>

theorem decodeHighBitDepth_8bit_fallback:
  "(decodeHighBitDepth fl engine input = Some result
      \<and> result ''bitDepth'' = Some (Number 8)
      \<and> \<not> (snd (JxlDecoderGetICCProfileSize (engine input)) > 0
           \<and> skcms_Parse (engine input)
                (written_into (unat (snd (JxlDecoderGetICCProfileSize (engine input))))
                   (snd (JxlDecoderGetColorAsICCProfile (engine input)))))
    \<longrightarrow> JxlBasicInfo.exponent_bits_per_sample (snd (JxlDecoderGetBasicInfo (engine input))) = 0
      \<and> result ''data'' = Some (Uint8ClampedArray
           (map (fallback_sample fl
                   (JxlBasicInfo.exponent_bits_per_sample
                      (snd (JxlDecoderGetBasicInfo (engine input)))))
             (written_into
                (unat ((ucast (xsize (snd (JxlDecoderGetBasicInfo (engine input)))
                              * ysize (snd (JxlDecoderGetBasicInfo (engine input)))) :: size_t)
                       * COMPONENTS_PER_PIXEL))
                (snd (JxlDecoderProcessInput_4 (engine input)))))))
   \<and> (decoder_calls_succeed (engine input)
      \<and> JxlBasicInfo.exponent_bits_per_sample (snd (JxlDecoderGetBasicInfo (engine input))) = 0
      \<and> JxlBasicInfo.bits_per_sample (snd (JxlDecoderGetBasicInfo (engine input))) \<le> 8
      \<and> \<not> (snd (JxlDecoderGetICCProfileSize (engine input)) > 0
           \<and> skcms_Parse (engine input)
                (written_into (unat (snd (JxlDecoderGetICCProfileSize (engine input))))
                   (snd (JxlDecoderGetColorAsICCProfile (engine input)))))
    \<longrightarrow> (\<exists>fallback. decodeHighBitDepth fl engine input = Some fallback
      \<and> fallback ''bitDepth'' = Some (Number 8)
      \<and> fallback ''data'' = Some (Uint8ClampedArray
           (map (\<lambda>v. word_of_int \<lfloor>rnd fl (max 0 (min 1 v) * 255)\<rfloor>)
             (written_into
                (unat ((ucast (xsize (snd (JxlDecoderGetBasicInfo (engine input)))
                              * ysize (snd (JxlDecoderGetBasicInfo (engine input)))) :: size_t)
                       * COMPONENTS_PER_PIXEL))
                (snd (JxlDecoderProcessInput_4 (engine input))))))))
   \<and> fallback_sample fl 0 v = word_of_int \<lfloor>rnd fl (max 0 (min 1 v) * 255)\<rfloor>
   \<and> fallback_sample exact_float exponent_bits v =
       (if exponent_bits > 0
        then word_of_int \<lfloor>max 0 (min 1
               (if v \<le> 0.0031308 then v * 12.92
                else 1.055 * v powr (1 / 2.4) - 0.055)) * 255\<rfloor>
        else word_of_int \<lfloor>max 0 (min 1 v) * 255\<rfloor>)
   \<and> (decode engine input = Some img
    \<longrightarrow> skcms_Parse (engine input)
          (written_into (unat (snd (JxlDecoderGetICCProfileSize (engine input))))
             (snd (JxlDecoderGetColorAsICCProfile (engine input)))))"
proof (intro conjI impI)
  assume a: "decodeHighBitDepth fl engine input = Some result
      \<and> result ''bitDepth'' = Some (Number 8)
      \<and> \<not> (snd (JxlDecoderGetICCProfileSize (engine input)) > 0
           \<and> skcms_Parse (engine input)
                (written_into (unat (snd (JxlDecoderGetICCProfileSize (engine input))))
                   (snd (JxlDecoderGetColorAsICCProfile (engine input)))))"
  then show "JxlBasicInfo.exponent_bits_per_sample (snd (JxlDecoderGetBasicInfo (engine input))) = 0"
    by (auto simp: decodeHighBitDepth_def Let_def EXPECT_EQ_def EXPECT_TRUE_def Object_set_def
          word_greater_zero_iff split: if_splits Option.bind_splits)
  from a show "result ''data'' = Some (Uint8ClampedArray
           (map (fallback_sample fl
                   (JxlBasicInfo.exponent_bits_per_sample
                      (snd (JxlDecoderGetBasicInfo (engine input)))))
             (written_into
                (unat ((ucast (xsize (snd (JxlDecoderGetBasicInfo (engine input)))
                              * ysize (snd (JxlDecoderGetBasicInfo (engine input)))) :: size_t)
                       * COMPONENTS_PER_PIXEL))
                (snd (JxlDecoderProcessInput_4 (engine input))))))"
    by (auto simp: decodeHighBitDepth_def Let_def EXPECT_EQ_def EXPECT_TRUE_def Object_set_def
          split: if_splits Option.bind_splits)
next
  assume "decoder_calls_succeed (engine input)
      \<and> JxlBasicInfo.exponent_bits_per_sample (snd (JxlDecoderGetBasicInfo (engine input))) = 0
      \<and> JxlBasicInfo.bits_per_sample (snd (JxlDecoderGetBasicInfo (engine input))) \<le> 8
      \<and> \<not> (snd (JxlDecoderGetICCProfileSize (engine input)) > 0
           \<and> skcms_Parse (engine input)
                (written_into (unat (snd (JxlDecoderGetICCProfileSize (engine input))))
                   (snd (JxlDecoderGetColorAsICCProfile (engine input)))))"
  then show "\<exists>fallback. decodeHighBitDepth fl engine input = Some fallback
      \<and> fallback ''bitDepth'' = Some (Number 8)
      \<and> fallback ''data'' = Some (Uint8ClampedArray
           (map (\<lambda>v. word_of_int \<lfloor>rnd fl (max 0 (min 1 v) * 255)\<rfloor>)
             (written_into
                (unat ((ucast (xsize (snd (JxlDecoderGetBasicInfo (engine input)))
                              * ysize (snd (JxlDecoderGetBasicInfo (engine input)))) :: size_t)
                       * COMPONENTS_PER_PIXEL))
                (snd (JxlDecoderProcessInput_4 (engine input))))))"
    by (intro decodeHighBitDepth_fallback_runs) simp_all
next
  show "fallback_sample fl 0 v = word_of_int \<lfloor>rnd fl (max 0 (min 1 v) * 255)\<rfloor>"
    by (simp add: fallback_sample_def)
next
  show "fallback_sample exact_float exponent_bits v =
       (if exponent_bits > 0
        then word_of_int \<lfloor>max 0 (min 1
               (if v \<le> 0.0031308 then v * 12.92
                else 1.055 * v powr (1 / 2.4) - 0.055)) * 255\<rfloor>
        else word_of_int \<lfloor>max 0 (min 1 v) * 255\<rfloor>)"
    by (simp add: fallback_sample_def exact_float_def Let_def)
next
  assume "decode engine input = Some img"
  then show "skcms_Parse (engine input)
          (written_into (unat (snd (JxlDecoderGetICCProfileSize (engine input))))
             (snd (JxlDecoderGetColorAsICCProfile (engine input))))"
    by (auto simp: decode_def Let_def EXPECT_EQ_def EXPECT_TRUE_def
          split: if_splits Option.bind_splits)
qed

theorem decodeHighBitDepth_8bit_fallback_witness:
  "(decodeHighBitDepth exact_float (sample_run 8 0 False [0.5, 0.25, 1.5, - 1]) []
      \<bind> (\<lambda>r. r ''data''))
       = Some (Uint8ClampedArray [127, 63, 255, 0])
   \<and> (decodeHighBitDepth exact_float
        (sample_run_icc 8 0 [1, 2, 3] False [0.5, 0.25, 1.5, - 1]) []
      \<bind> (\<lambda>r. r ''data''))
       = Some (Uint8ClampedArray [127, 63, 255, 0])
   \<and> decode (sample_run_icc 8 0 [1, 2, 3] False [0.5, 0.25, 1.5, - 1]) [] = None
   \<and> fallback_sample exact_float 8 1 = 255
   \<and> decode (sample_run 8 0 True [0.5, 0.25, 1.5, - 1]) [] \<noteq> None"
proof -
  let ?e = "sample_run 8 0 False [0.5, 0.25, 1.5, - 1]"
  let ?e' = "sample_run 8 0 True [0.5, 0.25, 1.5, - 1]"
  let ?p = "sample_run_icc 8 0 [1, 2, 3] False [0.5, 0.25, 1.5, - 1]"
  obtain r where r: "decodeHighBitDepth exact_float ?e [] = Some r"
    by (simp add: decodeHighBitDepth_def sample_run_def decoder_defs Let_def)
  obtain i where i: "decode ?e' [] = Some i"
    by (simp add: decode_def sample_run_def decoder_defs Let_def)
  have b: "r ''bitDepth'' = Some (Number 8)"
    using r by (auto simp add: decodeHighBitDepth_def sample_run_def decoder_defs Let_def)
  have f: "fallback_sample exact_float 0 v = word_of_int \<lfloor>max 0 (min 1 v) * 255\<rfloor>" for v
    by (simp add: fallback_sample_def exact_float_def)
  have n: "decode ?p [] = None"
    by (simp add: decode_def sample_run_icc_def sample_run_def decoder_defs Let_def)
  have s: "decoder_calls_succeed (?p [])"
    by (simp add: decoder_calls_succeed_def sample_run_icc_def sample_run_def decoder_defs)
  have "\<exists>fallback. decodeHighBitDepth exact_float ?p [] = Some fallback
      \<and> fallback ''data'' = Some (Uint8ClampedArray [127, 63, 255, 0])"
    using decodeHighBitDepth_8bit_fallback
        [where fl = exact_float and engine = ?p and input = "[]" and result = r and img = i
           and exponent_bits = 8 and v = 1] s
    by (auto simp add: sample_run_icc_def sample_run_def decoder_defs exact_float_def)
  then have p: "(decodeHighBitDepth exact_float ?p [] \<bind> (\<lambda>r. r ''data''))
       = Some (Uint8ClampedArray [127, 63, 255, 0])"
    by auto
  have "(decodeHighBitDepth exact_float ?e [] \<bind> (\<lambda>r. r ''data''))
       = Some (Uint8ClampedArray [127, 63, 255, 0])
   \<and> fallback_sample exact_float 8 1 = 255
   \<and> decode ?e' [] \<noteq> None"
    using decodeHighBitDepth_8bit_fallback
        [where fl = exact_float and engine = ?e and input = "[]" and result = r and img = i
           and exponent_bits = 8 and v = 1]
      decodeHighBitDepth_8bit_fallback
        [where fl = exact_float and engine = ?e' and input = "[]" and result = r and img = i
           and exponent_bits = 8 and v = 1]
      r i b
    by (simp add: sample_run_def decoder_defs f)
  with p n show ?thesis by simp
qed

section \<open>Properties of the colour encoding selection\<close>

lemma SetupColorEncoding_cases:
  "SetupColorEncoding lib 0 input_type ce =
      (True, if input_type = 2 then JxlColorEncodingSetToLinearSRGB lib ce False
             else JxlColorEncodingSetToSRGB lib ce False)"
  "SetupColorEncoding lib 1 input_type ce =
      (True, \<lparr> color_space = JXL_COLOR_SPACE_RGB, white_point = JXL_WHITE_POINT_D65,
               primaries = JXL_PRIMARIES_P3,
               transfer_function = (if input_type = 2 then JXL_TRANSFER_FUNCTION_LINEAR
                                    else JXL_TRANSFER_FUNCTION_SRGB),
               rendering_intent = JXL_RENDERING_INTENT_PERCEPTUAL \<rparr>)"
  "SetupColorEncoding lib 2 input_type ce =
      (True, \<lparr> color_space = JXL_COLOR_SPACE_RGB, white_point = JXL_WHITE_POINT_D65,
               primaries = JXL_PRIMARIES_2100, transfer_function = JXL_TRANSFER_FUNCTION_PQ,
               rendering_intent = JXL_RENDERING_INTENT_PERCEPTUAL \<rparr>)"
  "SetupColorEncoding lib 3 input_type ce =
      (True, \<lparr> color_space = JXL_COLOR_SPACE_RGB, white_point = JXL_WHITE_POINT_D65,
               primaries = JXL_PRIMARIES_2100, transfer_function = JXL_TRANSFER_FUNCTION_HLG,
               rendering_intent = JXL_RENDERING_INTENT_PERCEPTUAL \<rparr>)"
  by (simp_all add: SetupColorEncoding_def)

text \<open>
  Claim C6.  \<open>SetupColorEncoding\<close> succeeds for the colour spaces 0 to 3 and fails for every
  other value.  For sRGB (0) the result is what the library's linear sRGB setter produces
  when the input type is float (2) and what its sRGB setter produces otherwise.  For
  Display-P3 (1) it has P3 primaries, the D65 white point and the linear transfer function
  if the input type is float, else the sRGB transfer function.  For Rec2020-PQ (2) and
  Rec2020-HLG (3) it has the BT.2100 primaries and the PQ and HLG transfer functions,
  whatever the input type.  For 1 to 3 the result does not depend on the struct passed in.
\<close>

theorem SetupColorEncoding_selection:
  "SetupColorEncoding lib 0 input_type ce =
      (True, if input_type = 2 then JxlColorEncodingSetToLinearSRGB lib ce False
             else JxlColorEncodingSetToSRGB lib ce False)
   \<and> SetupColorEncoding lib 1 input_type ce =
      (True, \<lparr> color_space = JXL_COLOR_SPACE_RGB, white_point = JXL_WHITE_POINT_D65,
               primaries = JXL_PRIMARIES_P3,
               transfer_function = (if input_type = 2 then JXL_TRANSFER_FUNCTION_LINEAR
                                    else JXL_TRANSFER_FUNCTION_SRGB),
               rendering_intent = JXL_RENDERING_INTENT_PERCEPTUAL \<rparr>)
   \<and> SetupColorEncoding lib 2 input_type ce =
      (True, \<lparr> color_space = JXL_COLOR_SPACE_RGB, white_point = JXL_WHITE_POINT_D65,
               primaries = JXL_PRIMARIES_2100, transfer_function = JXL_TRANSFER_FUNCTION_PQ,
               rendering_intent = JXL_RENDERING_INTENT_PERCEPTUAL \<rparr>)
   \<and> SetupColorEncoding lib 3 input_type ce =
      (True, \<lparr> color_space = JXL_COLOR_SPACE_RGB, white_point = JXL_WHITE_POINT_D65,
               primaries = JXL_PRIMARIES_2100, transfer_function = JXL_TRANSFER_FUNCTION_HLG,
               rendering_intent = JXL_RENDERING_INTENT_PERCEPTUAL \<rparr>)
   \<and> (color_space_id \<notin> {0, 1, 2, 3} \<longrightarrow>
        \<not> fst (SetupColorEncoding lib color_space_id input_type ce))"
  by (simp add: SetupColorEncoding_cases) (simp add: SetupColorEncoding_def)

theorem SetupColorEncoding_selection_witness:
  "SetupColorEncoding sample_libjxl 0 2 zero_color_encoding =
      (True, \<lparr> color_space = JXL_COLOR_SPACE_RGB, white_point = JXL_WHITE_POINT_D65,
           primaries = JXL_PRIMARIES_SRGB, transfer_function = JXL_TRANSFER_FUNCTION_LINEAR,
           rendering_intent = JXL_RENDERING_INTENT_RELATIVE \<rparr>)
   \<and> \<not> fst (SetupColorEncoding sample_libjxl 4 0 zero_color_encoding)
   \<and> \<not> fst (SetupColorEncoding sample_libjxl 7 2 zero_color_encoding)"
  using SetupColorEncoding_selection [of sample_libjxl 2 zero_color_encoding 4]
    SetupColorEncoding_selection [of sample_libjxl 0 zero_color_encoding 4]
    SetupColorEncoding_selection [of sample_libjxl 2 zero_color_encoding 7]
  by (simp add: sample_libjxl_def)

section \<open>Properties of the quality mapping\<close>

lemma distance_of_quality_100: "distance_of_quality exact_float 100 = 0"
  by (simp add: distance_of_quality_def exact_float_def clamp_float_def)

lemma distance_of_quality_30: "distance_of_quality exact_float 30 = 6.4"
  by (simp add: distance_of_quality_def exact_float_def clamp_float_def)

lemma distance_of_quality_0: "distance_of_quality exact_float 0 = 45.4625"
  by (simp add: distance_of_quality_def exact_float_def clamp_float_def power_divide)

lemma distance_of_quality_piecewise:
  "distance_of_quality exact_float q =
     (if q \<ge> 100 then 0
      else if q \<ge> 30 then 0.1 + (100 - q) * 0.09
      else 6.4 + 2.5 powr ((30 - max 0 q) / 5) / 6.25)"
  by (simp add: distance_of_quality_def exact_float_def clamp_float_def max_def)

lemma distance_low_ge: "q < 30 \<Longrightarrow> distance_of_quality exact_float q \<ge> 6.56"
proof -
  assume q: "q < 30"
  have "(1::real) \<le> 2.5 powr ((30 - max 0 q) / 5)"
    using q by (intro ge_one_powr_ge_zero) simp_all
  then have "1 / 6.25 \<le> 2.5 powr ((30 - max 0 q) / 5) / (6.25::real)"
    by (simp add: divide_right_mono)
  with q show ?thesis by (simp add: distance_of_quality_piecewise)
qed

lemma distance_mid_le:
  assumes "30 \<le> q"
  shows "distance_of_quality exact_float q \<le> 6.4"
proof (cases "100 \<le> q")
  case True
  then show ?thesis by (simp add: distance_of_quality_piecewise)
next
  case False
  have "0.1 + (100 - q) * 0.09 \<le> (6.4::real)" using assms by (simp add: field_simps)
  with False assms show ?thesis by (simp only: distance_of_quality_piecewise if_True if_False)
qed

lemma not_cont_30: "\<not> isCont (distance_of_quality exact_float) 30"
proof
  assume "isCont (distance_of_quality exact_float) 30"
  then have "\<forall>e>0. \<exists>d>0. \<forall>x. \<bar>x - 30\<bar> < d \<longrightarrow> \<bar>distance_of_quality exact_float x - distance_of_quality exact_float 30\<bar> < e"
    by (simp add: isCont_def LIM_def dist_real_def) (metis abs_zero diff_self)
  then obtain d where d: "d > 0"
      "\<And>x. \<bar>x - 30\<bar> < d \<Longrightarrow> \<bar>distance_of_quality exact_float x - distance_of_quality exact_float 30\<bar> < 0.1"
    by (metis zero_less_divide_1_iff zero_less_numeral divide_numeral_1 numeral_One)
  let ?x = "30 - d / 2"
  have "\<bar>?x - 30\<bar> < d" using d(1) by simp
  then have "\<bar>distance_of_quality exact_float ?x - distance_of_quality exact_float 30\<bar> < 0.1" by (rule d(2))
  moreover have "distance_of_quality exact_float ?x \<ge> 6.56" using d(1) by (intro distance_low_ge) simp
  ultimately show False by (simp add: distance_of_quality_30)
qed

lemma isCont_eq_on_open:
  assumes "open S" and "q \<in> S" and "\<And>x. x \<in> S \<Longrightarrow> f x = g x" and "isCont g q"
  shows "isCont f q"
proof -
  have "eventually (\<lambda>x. f x = g x) (nhds q)"
    unfolding eventually_nhds using assms(1-3) by blast
  then show ?thesis using assms(4) by (simp add: isCont_cong)
qed

lemma isCont_low_branch: "isCont (\<lambda>x::real. 6.4 + 2.5 powr ((30 - max 0 x) / 5) / 6.25) q"
  by (intro continuous_intros) simp_all

lemma isCont_mid_branch: "isCont (\<lambda>x::real. 0.1 + (100 - x) * 0.09) q"
  by (intro continuous_intros)

lemma distance_of_quality_isCont:
  assumes "q \<noteq> 30" and "q \<noteq> 100"
  shows "isCont (distance_of_quality exact_float) q"
proof -
  consider "q < 30" | "30 < q \<and> q < 100" | "100 < q" using assms by linarith
  then show ?thesis
  proof cases
    case 1
    show ?thesis
    proof (rule isCont_eq_on_open [OF _ _ _ isCont_low_branch])
      show "open {..<(30::real)}" by simp
      show "q \<in> {..<30}" using 1 by simp
      show "distance_of_quality exact_float x = 6.4 + 2.5 powr ((30 - max 0 x) / 5) / 6.25"
        if "x \<in> {..<30}" for x
        using that by (simp add: distance_of_quality_piecewise)
    qed
  next
    case 2
    show ?thesis
    proof (rule isCont_eq_on_open [OF _ _ _ isCont_mid_branch])
      show "open {(30::real)<..<100}" by simp
      show "q \<in> {30<..<100}" using 2 by simp
      show "distance_of_quality exact_float x = 0.1 + (100 - x) * 0.09" if "x \<in> {30<..<100}" for x
        using that by (simp add: distance_of_quality_piecewise)
    qed
  next
    case 3
    show ?thesis
    proof (rule isCont_eq_on_open [where g = "\<lambda>x. 0"])
      show "open {(100::real)<..}" by simp
      show "q \<in> {100<..}" using 3 by simp
      show "distance_of_quality exact_float x = 0" if "x \<in> {100<..}" for x
        using that by (simp add: distance_of_quality_piecewise)
      show "isCont (\<lambda>x::real. 0::real) q" by simp
    qed
  qed
qed

lemma distance_left_limit_30: "(distance_of_quality exact_float \<longlongrightarrow> 6.56) (at_left 30)"
proof -
  let ?g = "\<lambda>x::real. 6.4 + 2.5 powr ((30 - max 0 x) / 5) / 6.25"
  have "(?g \<longlongrightarrow> ?g 30) (at_left 30)"
    using continuous_at_imp_continuous_at_within [OF isCont_low_branch, of 30 "{..<30}"]
    by (simp only: continuous_within)
  moreover have "?g 30 = 6.56" by simp
  ultimately have g: "(?g \<longlongrightarrow> 6.56) (at_left 30)" by simp
  have "eventually (\<lambda>x. x \<in> {(0::real)<..<30}) (at_left 30)"
    by (rule eventually_at_left_real) simp
  then have "eventually (\<lambda>x. distance_of_quality exact_float x = ?g x) (at_left 30)"
    by (rule eventually_mono) (simp add: distance_of_quality_piecewise)
  then show ?thesis using g by (simp only: tendsto_cong)
qed

lemma distance_left_limit_100: "(distance_of_quality exact_float \<longlongrightarrow> 0.1) (at_left 100)"
proof -
  let ?g = "\<lambda>x::real. 0.1 + (100 - x) * 0.09"
  have "(?g \<longlongrightarrow> ?g 100) (at_left 100)"
    using continuous_at_imp_continuous_at_within [OF isCont_mid_branch, of 100 "{..<100}"]
    by (simp only: continuous_within)
  moreover have "?g 100 = 0.1" by simp
  ultimately have g: "(?g \<longlongrightarrow> 0.1) (at_left 100)" by simp
  have "eventually (\<lambda>x. x \<in> {(30::real)<..<100}) (at_left 100)"
    by (rule eventually_at_left_real) simp
  then have "eventually (\<lambda>x. distance_of_quality exact_float x = ?g x) (at_left 100)"
    by (rule eventually_mono) (simp add: distance_of_quality_piecewise)
  then show ?thesis using g by (simp only: tendsto_cong)
qed

text \<open>
  Claim C8, as stated, fails at the breakpoint 30: the mapping is not continuous there.  The
  exponential branch evaluated at 30 yields \<open>6.4 + 1 / 6.25 = 6.56\<close>, not the 6.4 of the
  linear branch.
\<close>

theorem distance_of_quality_jumps_at_30:
  "\<not> isCont (distance_of_quality exact_float) 30
   \<and> 6.4 + 2.5 powr ((30 - 30) / 5) / 6.25 = (6.56 :: real)
   \<and> distance_of_quality exact_float 30 = 6.4"
  by (simp add: not_cont_30 distance_of_quality_30)

text \<open>
  Claim C8, amended.  Read in exact arithmetic, the mapping is continuous at every quality
  other than the two breakpoints.  At 30 it jumps: the values of the exponential branch tend to 6.56 from
  the left, the value at 30 is 6.4.  At 100 it jumps too: the values of the linear branch
  tend to 0.1 from the left, the value at 100 is 0.
\<close>

theorem distance_of_quality_continuity:
  "(q \<noteq> 30 \<and> q \<noteq> 100 \<longrightarrow> isCont (distance_of_quality exact_float) q)
   \<and> (distance_of_quality exact_float \<longlongrightarrow> 6.56) (at_left 30)
   \<and> distance_of_quality exact_float 30 = 6.4
   \<and> (distance_of_quality exact_float \<longlongrightarrow> 0.1) (at_left 100)
   \<and> distance_of_quality exact_float 100 = 0"
  using distance_of_quality_isCont [of q] distance_left_limit_30 distance_left_limit_100
    distance_of_quality_30 distance_of_quality_100
  by blast

theorem distance_of_quality_continuity_witness:
  "isCont (distance_of_quality exact_float) 50
   \<and> (distance_of_quality exact_float \<longlongrightarrow> 6.56) (at_left 30) \<and> distance_of_quality exact_float 30 = 6.4"
  using distance_of_quality_continuity [of 50] by simp

lemma rnd_bounds:
  assumes err: "\<And>x. 1 / 100 \<le> x \<Longrightarrow> x \<le> 1000 \<Longrightarrow> \<bar>rnd fl x - x\<bar> \<le> x / 1000"
    and "1 / 100 \<le> x" and "x \<le> 1000"
  shows "x * (999 / 1000) \<le> rnd fl x" and "rnd fl x \<le> x * (1001 / 1000)"
proof -
  have "\<bar>rnd fl x - x\<bar> \<le> x / 1000" using assms(2,3) by (rule err)
  then have "rnd fl x - x \<le> x / 1000" and "x - rnd fl x \<le> x / 1000" by linarith+
  then show "x * (999 / 1000) \<le> rnd fl x" and "rnd fl x \<le> x * (1001 / 1000)"
    by (simp_all add: field_simps)
qed

lemma boundary_gap:
  assumes mono: "\<And>x y. x \<le> y \<Longrightarrow> rnd fl x \<le> rnd fl y"
    and err: "\<And>x. 1 / 100 \<le> x \<Longrightarrow> x \<le> 1000 \<Longrightarrow> \<bar>rnd fl x - x\<bar> \<le> x / 1000"
  shows "rnd fl (rnd fl 0.1 + rnd fl (rnd fl 70 * rnd fl 0.09))
       \<le> rnd fl (rnd fl 6.4 + rnd fl (1 / 6.25))"
proof -
  note b = rnd_bounds [of fl, OF err]
  have a1: "rnd fl 0.1 \<le> 0.1001" using b(2) [of "0.1"] by simp
  have a2: "rnd fl 70 \<le> 70.07" using b(2) [of 70] by simp
  have a2': "0 \<le> rnd fl 70" using b(1) [of 70] by simp
  have a3: "rnd fl 0.09 \<le> 0.09009" using b(2) [of "0.09"] by simp
  have a3': "0 \<le> rnd fl 0.09" using b(1) [of "0.09"] by simp
  have p: "rnd fl 70 * rnd fl 0.09 \<le> 70.07 * 0.09009"
    using a2 a2' a3 a3' by (intro mult_mono) simp_all
  have p': "rnd fl 70 * rnd fl 0.09 \<ge> 69.93 * 0.08991"
    using b(1) [of 70] b(1) [of "0.09"] by (intro mult_mono) simp_all
  have a4: "rnd fl (rnd fl 70 * rnd fl 0.09) \<le> 6.32"
  proof -
    have "rnd fl (rnd fl 70 * rnd fl 0.09) \<le> (rnd fl 70 * rnd fl 0.09) * (1001 / 1000)"
      using p p' by (intro b(2)) simp_all
    also have "\<dots> \<le> (70.07 * 0.09009) * (1001 / 1000)" using p by simp
    also have "\<dots> \<le> 6.32" by simp
    finally show ?thesis .
  qed
  have a1': "0.0999 \<le> rnd fl 0.1" using b(1) [of "0.1"] by simp
  have a4': "6.2 \<le> rnd fl (rnd fl 70 * rnd fl 0.09)"
  proof -
    have "(6.2::real) \<le> (69.93 * 0.08991) * (999 / 1000)" by simp
    also have "\<dots> \<le> (rnd fl 70 * rnd fl 0.09) * (999 / 1000)" using p' by simp
    also have "\<dots> \<le> rnd fl (rnd fl 70 * rnd fl 0.09)" using p p' by (intro b(1)) simp_all
    finally show ?thesis .
  qed
  have lhs: "rnd fl 0.1 + rnd fl (rnd fl 70 * rnd fl 0.09) \<le> 6.43" using a1 a4 by simp
  have b1: "6.39 \<le> rnd fl 6.4" using b(1) [of "6.4"] by simp
  have b2: "0.159 \<le> rnd fl (1 / 6.25)" using b(1) [of "1 / 6.25"] by simp
  have rhs: "6.43 \<le> rnd fl 6.4 + rnd fl (1 / 6.25)" using b1 b2 by simp
  show ?thesis using lhs rhs by (intro mono) simp
qed

lemma clamp_float_mono: "q1 \<le> q2 \<Longrightarrow> clamp_float q1 0 100 \<le> clamp_float q2 0 100"
  by (simp add: clamp_float_def)

text \<open>
  Claim C9.  The distance is monotonically non-increasing in the quality: for
  \<open>q1 \<le> q2\<close> the distance computed for \<open>q2\<close> is at most the distance computed for \<open>q1\<close>,
  within each branch and across both breakpoints.  This holds for every arithmetic whose
  rounding is monotone, maps 0 to 0 and has a relative error of at most one part in a
  thousand between 0.01 and 1000, and whose power function is monotone in the exponent
  for the base 2.5, with \<open>powf 2.5 0 = 1\<close>; exact arithmetic is one such arithmetic.
\<close>

theorem distance_of_quality_monotone:
  assumes mono: "\<And>x y. x \<le> y \<Longrightarrow> rnd fl x \<le> rnd fl y"
    and err: "\<And>x. 1 / 100 \<le> x \<Longrightarrow> x \<le> 1000 \<Longrightarrow> \<bar>rnd fl x - x\<bar> \<le> x / 1000"
    and zero: "rnd fl 0 = 0"
    and pw_mono: "\<And>x y. x \<le> y \<Longrightarrow> powf fl 2.5 x \<le> powf fl 2.5 y"
    and pw_zero: "powf fl 2.5 0 = 1"
    and le: "q1 \<le> q2"
  shows "distance_of_quality fl q2 \<le> distance_of_quality fl q1"
proof -
  define L where "L c = rnd fl (rnd fl 0.1 + rnd fl (rnd fl (100 - c) * rnd fl 0.09))" for c
  define E where
    "E c = rnd fl (rnd fl 6.4 + rnd fl (powf fl 2.5 (rnd fl (rnd fl (30 - c) / 5)) / 6.25))" for c
  define c1 where "c1 = clamp_float q1 0 100"
  define c2 where "c2 = clamp_float q2 0 100"
  have d1: "distance_of_quality fl q1 = (if c1 \<ge> 100 then 0 else if c1 \<ge> 30 then L c1 else E c1)"
    by (simp add: distance_of_quality_def Let_def c1_def L_def E_def)
  have d2: "distance_of_quality fl q2 = (if c2 \<ge> 100 then 0 else if c2 \<ge> 30 then L c2 else E c2)"
    by (simp add: distance_of_quality_def Let_def c2_def L_def E_def)
  have c: "c1 \<le> c2" unfolding c1_def c2_def using le by (rule clamp_float_mono)
  have nonneg: "0 \<le> rnd fl x" if "0 \<le> x" for x
    using mono [OF that] by (simp add: zero)
  have r009: "0 \<le> rnd fl 0.09" by (rule nonneg) simp
  have L_mono: "L b \<le> L a" if "a \<le> b" for a b
  proof -
    have "rnd fl (100 - b) \<le> rnd fl (100 - a)" using that by (intro mono) simp
    then have "rnd fl (100 - b) * rnd fl 0.09 \<le> rnd fl (100 - a) * rnd fl 0.09"
      using r009 by (rule mult_right_mono)
    then have "rnd fl (rnd fl (100 - b) * rnd fl 0.09) \<le> rnd fl (rnd fl (100 - a) * rnd fl 0.09)"
      by (rule mono)
    then show ?thesis unfolding L_def by (intro mono) simp
  qed
  have E_mono: "E b \<le> E a" if "a \<le> b" for a b
  proof -
    have "rnd fl (30 - b) \<le> rnd fl (30 - a)" using that by (intro mono) simp
    then have "rnd fl (rnd fl (30 - b) / 5) \<le> rnd fl (rnd fl (30 - a) / 5)"
      by (intro mono) simp
    then have "powf fl 2.5 (rnd fl (rnd fl (30 - b) / 5)) \<le> powf fl 2.5 (rnd fl (rnd fl (30 - a) / 5))"
      by (rule pw_mono)
    then have "rnd fl (powf fl 2.5 (rnd fl (rnd fl (30 - b) / 5)) / 6.25)
        \<le> rnd fl (powf fl 2.5 (rnd fl (rnd fl (30 - a) / 5)) / 6.25)"
      by (intro mono) (simp add: divide_right_mono)
    then show ?thesis unfolding E_def by (intro mono) simp
  qed
  have E_low: "rnd fl (rnd fl 6.4 + rnd fl (1 / 6.25)) \<le> E a" if "a \<le> 30" for a
  proof -
    have "0 \<le> rnd fl (30 - a)" using that by (intro nonneg) simp
    then have "0 \<le> rnd fl (rnd fl (30 - a) / 5)" by (intro nonneg) simp
    then have "powf fl 2.5 0 \<le> powf fl 2.5 (rnd fl (rnd fl (30 - a) / 5))" by (rule pw_mono)
    then have "1 \<le> powf fl 2.5 (rnd fl (rnd fl (30 - a) / 5))" using pw_zero by simp
    then have "rnd fl (1 / 6.25) \<le> rnd fl (powf fl 2.5 (rnd fl (rnd fl (30 - a) / 5)) / 6.25)"
      by (intro mono) (simp add: divide_right_mono)
    then show ?thesis unfolding E_def by (intro mono) simp
  qed
  have L_30: "L 30 \<le> rnd fl (rnd fl 6.4 + rnd fl (1 / 6.25))"
    unfolding L_def using boundary_gap [of fl, OF mono err] by simp
  have L_nonneg: "0 \<le> L a" if "a \<le> 100" for a
  proof -
    have "0 \<le> rnd fl (100 - a)" using that by (intro nonneg) simp
    then have "0 \<le> rnd fl (100 - a) * rnd fl 0.09" using r009 by simp
    then have "0 \<le> rnd fl (rnd fl (100 - a) * rnd fl 0.09)" by (rule nonneg)
    moreover have "0 \<le> rnd fl 0.1" by (rule nonneg) simp
    ultimately show ?thesis unfolding L_def by (intro nonneg) simp
  qed
  have E_nonneg: "0 \<le> E a" if "a \<le> 30" for a
  proof -
    have "0 \<le> L 30" by (rule L_nonneg) simp
    also note L_30
    also note E_low [OF that]
    finally show ?thesis .
  qed
  show ?thesis
  proof (cases "c2 \<ge> 100")
    case True
    then show ?thesis unfolding d1 d2 using L_nonneg [of c1] E_nonneg [of c1] by auto
  next
    case hi2: False
    show ?thesis
    proof (cases "c2 \<ge> 30")
      case mid2: True
      show ?thesis
      proof (cases "c1 \<ge> 30")
        case True
        with hi2 mid2 c L_mono [OF c] show ?thesis unfolding d1 d2 by auto
      next
        case False
        have "L c2 \<le> L 30" using mid2 by (rule L_mono)
        also note L_30
        also have "rnd fl (rnd fl 6.4 + rnd fl (1 / 6.25)) \<le> E c1"
          using False by (intro E_low) simp
        finally show ?thesis using hi2 mid2 False c unfolding d1 d2 by auto
      qed
    next
      case False
      with c E_mono [OF c] show ?thesis unfolding d1 d2 by auto
    qed
  qed
qed

theorem distance_of_quality_monotone_witness:
  "distance_of_quality exact_float 30 \<le> distance_of_quality exact_float 0
   \<and> distance_of_quality exact_float 100 \<le> distance_of_quality exact_float 30
   \<and> distance_of_quality exact_float 0 = 45.4625
   \<and> distance_of_quality exact_float 30 = 6.4"
proof -
  have m: "x \<le> y \<Longrightarrow> rnd exact_float x \<le> rnd exact_float y" for x y
    by (simp add: exact_float_def)
  have e: "1 / 100 \<le> x \<Longrightarrow> x \<le> 1000 \<Longrightarrow> \<bar>rnd exact_float x - x\<bar> \<le> x / 1000" for x
    by (simp add: exact_float_def)
  have z: "rnd exact_float 0 = 0" by (simp add: exact_float_def)
  have pm: "x \<le> y \<Longrightarrow> powf exact_float 2.5 x \<le> powf exact_float 2.5 y" for x y
    by (simp add: exact_float_def powr_mono)
  have pz: "powf exact_float 2.5 0 = 1" by (simp add: exact_float_def)
  have "(0::real) \<le> 30" and "(30::real) \<le> 100" by simp_all
  then show ?thesis
    using distance_of_quality_monotone [of exact_float 0 30, OF m e z pm pz]
      distance_of_quality_monotone [of exact_float 30 100, OF m e z pm pz]
    by (simp add: distance_of_quality_0 distance_of_quality_30)
qed

section \<open>The calls a computation makes\<close>

lemmas enc_defs = enc_return_def enc_null_def enc_bind_def enc_expect_def enc_when_def
  enc_success_def SetFrameOption_def

lemma addsI:
  assumes "\<And>script calls. \<exists>ext. snd (snd (m (script, calls))) = calls @ ext \<and> list_all P ext"
  shows "adds P m"
  using assms unfolding adds_def by blast

lemma addsD:
  assumes "adds P m"
  obtains ext where "snd (snd (m (script, calls))) = calls @ ext" and "list_all P ext"
  using assms unfolding adds_def by blast

lemma adds_return: "adds P (enc_return x)"
  by (rule addsI) (simp add: enc_return_def)

lemma adds_null: "adds P enc_null"
  by (rule addsI) (simp add: enc_null_def)

lemma adds_call: "P c \<Longrightarrow> adds P (enc_call c)"
proof (rule addsI)
  fix script calls
  assume "P c"
  then show "\<exists>ext. snd (snd (enc_call c (script, calls))) = calls @ ext \<and> list_all P ext"
    by (cases script) simp_all
qed

lemma adds_bind:
  assumes m: "adds P m" and f: "\<And>x. adds P (f x)"
  shows "adds P (enc_bind m f)"
proof (rule addsI)
  fix script calls
  obtain e1 where e1: "snd (snd (m (script, calls))) = calls @ e1" "list_all P e1"
    using m by (rule addsD)
  obtain r script1 calls1 where ms: "m (script, calls) = (r, (script1, calls1))"
    by (metis prod.exhaust)
  with e1 have c1: "calls1 = calls @ e1" by simp
  show "\<exists>ext. snd (snd (enc_bind m f (script, calls))) = calls @ ext \<and> list_all P ext"
  proof (cases r)
    case (Return x)
    obtain e2 where e2: "snd (snd (f x (script1, calls1))) = calls1 @ e2" "list_all P e2"
      using f by (rule addsD)
    with Return ms c1 e1 show ?thesis by (simp add: enc_bind_def)
  next
    case ReturnNull
    with ms c1 e1 show ?thesis by (simp add: enc_bind_def)
  next
    case Pending
    with ms c1 e1 show ?thesis by (simp add: enc_bind_def)
  qed
qed

lemma adds_expect: "adds P (enc_expect b)"
  by (simp add: enc_expect_def adds_return adds_null)

lemma adds_when: "adds P m \<Longrightarrow> adds P (enc_when b m)"
  by (simp add: enc_when_def adds_return)

lemma adds_seq: "list_all (adds P) ms \<Longrightarrow> adds P (enc_seq ms)"
  by (induction ms) (simp_all add: adds_return adds_bind)

lemma adds_success: "P c \<Longrightarrow> adds P (enc_success c)"
  by (simp add: enc_success_def adds_bind adds_call adds_expect)

lemma adds_SetFrameOption:
  "P (JxlEncoderFrameSettingsSetOption option v) \<Longrightarrow> adds P (SetFrameOption option v)"
  by (simp add: SetFrameOption_def adds_bind adds_call adds_return)

lemma adds_collect_output_loop:
  assumes "\<And>n. P (JxlEncoderProcessOutput n)"
  shows "adds P (collect_output_loop buf)"
proof (rule addsI)
  fix script calls
  show "\<exists>ext. snd (snd (collect_output_loop buf (script, calls))) = calls @ ext \<and> list_all P ext"
  proof (induction script arbitrary: buf calls)
    case Nil
    then show ?case by (simp add: assms)
  next
    case (Cons r script)
    show ?case
    proof (cases "returned_status r = JXL_ENC_NEED_MORE_OUTPUT")
      case True
      obtain ext where "snd (snd (collect_output_loop (grow_output (engine_output r buf))
            (script, calls @ [JxlEncoderProcessOutput (avail_out buf)])))
          = (calls @ [JxlEncoderProcessOutput (avail_out buf)]) @ ext" and "list_all P ext"
        using Cons.IH by blast
      with True show ?thesis
        by (simp add: Let_def assms)
    next
      case False
      then show ?thesis by (simp add: Let_def assms)
    qed
  qed
qed

lemma adds_collect_output:
  "(\<And>n. P (JxlEncoderProcessOutput n)) \<Longrightarrow> adds P collect_output"
  by (simp add: collect_output_def adds_collect_output_loop)

lemmas adds_intros = adds_return adds_null adds_call adds_bind adds_expect adds_when adds_seq
  adds_success adds_SetFrameOption adds_collect_output

lemma adds_encode_fidelity: "adds (\<lambda>_. True) (encode_fidelity fl options)"
  by (simp add: encode_fidelity_def adds_intros)

lemma adds_encode_engine:
  "adds (\<lambda>_. True) (encode_engine fl pthreads lib image_data width height options data_type)"
  unfolding encode_engine_def Let_def
  by (intro adds_intros) (simp_all add: adds_intros adds_encode_fidelity split: prod.split)

lemma must_success: "must c (enc_success c)"
proof -
  have "c \<in> set (snd s')" if "enc_success c s = (Return x, s')" for s x s'
  proof -
    obtain script calls where s: "s = (script, calls)" by (cases s)
    show ?thesis using that unfolding s
      by (cases script)
        (auto simp: enc_success_def enc_bind_def enc_expect_def enc_return_def enc_null_def
           split: if_splits)
  qed
  then show ?thesis unfolding must_def by blast
qed

lemma must_bind_left:
  assumes m: "must c m" and f: "\<And>x. adds (\<lambda>_. True) (f x)"
  shows "must c (enc_bind m f)"
proof -
  have "c \<in> set (snd s')" if b: "enc_bind m f s = (Return y, s')" for s y s'
  proof -
    obtain r script1 calls1 where ms: "m s = (r, (script1, calls1))" by (metis prod.exhaust)
    with b obtain x where r: "r = Return x" and fx: "f x (script1, calls1) = (Return y, s')"
      by (cases r) (auto simp: enc_bind_def)
    from m ms r have "c \<in> set calls1" unfolding must_def by fastforce
    moreover obtain ext where "snd (snd (f x (script1, calls1))) = calls1 @ ext"
      using f by (rule addsD)
    ultimately show ?thesis using fx by (cases s') simp
  qed
  then show ?thesis unfolding must_def by blast
qed

lemma must_bind_right:
  assumes "\<And>x. must c (f x)"
  shows "must c (enc_bind m f)"
proof -
  have "c \<in> set (snd s')" if b: "enc_bind m f s = (Return y, s')" for s y s'
  proof -
    obtain r s1 where ms: "m s = (r, s1)" by (metis prod.exhaust)
    with b obtain x where "f x s1 = (Return y, s')"
      by (cases r) (auto simp: enc_bind_def)
    with assms show ?thesis unfolding must_def by blast
  qed
  then show ?thesis unfolding must_def by blast
qed

lemma must_seq:
  assumes "list_all (adds (\<lambda>_. True)) ms" and "list_ex (must c) ms"
  shows "must c (enc_seq ms)"
  using assms
proof (induction ms)
  case Nil
  then show ?case by simp
next
  case (Cons m ms)
  show ?case
  proof (cases "must c m")
    case True
    have "adds (\<lambda>_. True) (enc_seq ms)" using Cons.prems(1) by (simp add: adds_seq)
    with True show ?thesis by (simp add: must_bind_left)
  next
    case False
    with Cons have "must c (enc_seq ms)" by simp
    then show ?thesis by (simp add: must_bind_right)
  qed
qed

lemma starts_call: "starts c (enc_call c)"
  unfolding starts_def
proof
  fix script
  show "\<exists>ext. snd (snd (enc_call c (script, []))) = c # ext"
    by (cases script) simp_all
qed

lemma starts_bind:
  assumes m: "starts c m" and f: "\<And>x. adds (\<lambda>_. True) (f x)"
  shows "starts c (enc_bind m f)"
  unfolding starts_def
proof
  fix script
  obtain e1 where e1: "snd (snd (m (script, []))) = c # e1" using m unfolding starts_def by blast
  obtain r script1 calls1 where ms: "m (script, []) = (r, (script1, calls1))"
    by (metis prod.exhaust)
  with e1 have c1: "calls1 = c # e1" by simp
  show "\<exists>ext. snd (snd (enc_bind m f (script, []))) = c # ext"
  proof (cases r)
    case (Return x)
    obtain e2 where "snd (snd (f x (script1, calls1))) = calls1 @ e2"
      using f by (rule addsD)
    with Return ms c1 show ?thesis by (simp add: enc_bind_def)
  next
    case ReturnNull
    with ms c1 show ?thesis by (simp add: enc_bind_def)
  next
    case Pending
    with ms c1 show ?thesis by (simp add: enc_bind_def)
  qed
qed

lemma encode_engine_starts:
  "starts JxlEncoderCreate
     (encode_engine fl pthreads lib image_data width height options data_type)"
  unfolding encode_engine_def Let_def
  apply (subst enc_seq.simps(2))
  apply (intro starts_bind starts_call)
    apply (simp add: adds_intros)
   apply (rule adds_seq)
   apply (simp add: adds_intros adds_encode_fidelity split: prod.split)
  apply (simp add: adds_intros)
  done

subsection \<open>Calls that are reached when the codec succeeds\<close>

lemma answered_mono: "answered k script \<Longrightarrow> j \<le> k \<Longrightarrow> answered j script"
  unfolding answered_def list_all_iff
  using set_take_subset_set_take [of j k script] by auto

lemma answered_drop:
  assumes "answered (k1 + k2) script" and "j \<le> k1"
  shows "answered k2 (drop j script)"
proof -
  have "take k2 (drop j script) = drop j (take (j + k2) script)"
    by (simp add: drop_take)
  then have "set (take k2 (drop j script)) \<subseteq> set (take (j + k2) script)"
    by (simp add: set_drop_subset)
  also have "\<dots> \<subseteq> set (take (k1 + k2) script)"
    using assms(2) by (intro set_take_subset_set_take) simp
  finally show ?thesis
    using assms unfolding answered_def list_all_iff by auto
qed

lemma answered_1:
  assumes "answered 1 script"
  obtains r rest where "script = r # rest" and "call_succeeds r"
  using assms unfolding answered_def by (cases script) simp_all

lemma passesI:
  assumes "\<And>script calls. answered k script \<Longrightarrow>
     \<exists>j ext. j \<le> k \<and> m (script, calls) = (Return (), (drop j script, calls @ ext))"
  shows "passes k m"
  using assms unfolding passes_def by blast

lemma passesD:
  assumes "passes k m" and "answered k script"
  obtains j ext where "j \<le> k" and "m (script, calls) = (Return (), (drop j script, calls @ ext))"
  using assms unfolding passes_def by blast

lemma passes_mono: "passes j m \<Longrightarrow> j \<le> k \<Longrightarrow> passes k m"
  unfolding passes_def by (meson answered_mono order_trans)

lemma passes_return: "passes 0 (enc_return ())"
  by (rule passesI) (simp add: enc_return_def)

lemma passes_bind:
  assumes m: "passes k1 m" and f: "passes k2 m'"
  shows "passes (k1 + k2) (enc_bind m (\<lambda>_. m'))"
proof (rule passesI)
  fix script calls
  assume a: "answered (k1 + k2) script"
  then have "answered k1 script" by (rule answered_mono) simp
  with m obtain j1 e1 where j1: "j1 \<le> k1"
      and r1: "m (script, calls) = (Return (), (drop j1 script, calls @ e1))"
    by (rule passesD)
  have "answered k2 (drop j1 script)" using a j1 by (rule answered_drop)
  with f obtain j2 e2 where j2: "j2 \<le> k2"
      and r2: "m' (drop j1 script, calls @ e1) = (Return (), (drop j2 (drop j1 script), (calls @ e1) @ e2))"
    by (rule passesD)
  have "enc_bind m (\<lambda>_. m') (script, calls) = (Return (), (drop (j2 + j1) script, calls @ (e1 @ e2)))"
    by (simp add: enc_bind_def r1 r2)
  moreover have "j2 + j1 \<le> k1 + k2" using j1 j2 by simp
  ultimately show "\<exists>j ext. j \<le> k1 + k2
      \<and> enc_bind m (\<lambda>_. m') (script, calls) = (Return (), (drop j script, calls @ ext))"
    by blast
qed

lemma passes_seq_nil: "passes 0 (enc_seq [])"
  by (simp add: passes_return)

lemma passes_seq_cons:
  "passes k1 m \<Longrightarrow> passes k2 (enc_seq ms) \<Longrightarrow> passes (k1 + k2) (enc_seq (m # ms))"
  by (simp add: passes_bind)

lemma passes_when: "passes k m \<Longrightarrow> passes k (enc_when b m)"
  by (cases b) (simp_all add: enc_when_def passes_mono [OF passes_return])

lemma passes_handle:
  "passes 1 (enc_bind (enc_call c) (\<lambda>r. enc_expect (returned_handle r)))"
proof (rule passesI)
  fix script calls
  assume "answered 1 script"
  then obtain r rest where s: "script = r # rest" and r: "call_succeeds r" by (rule answered_1)
  have "enc_bind (enc_call c) (\<lambda>r. enc_expect (returned_handle r)) (script, calls)
      = (Return (), (drop 1 script, calls @ [c]))"
    using r by (simp add: s enc_defs call_succeeds_def)
  then show "\<exists>j ext. j \<le> 1 \<and> enc_bind (enc_call c) (\<lambda>r. enc_expect (returned_handle r))
      (script, calls) = (Return (), (drop j script, calls @ ext))"
    by blast
qed

lemma passes_success: "passes 1 (enc_success c)"
proof (rule passesI)
  fix script calls
  assume "answered 1 script"
  then obtain r rest where s: "script = r # rest" and r: "call_succeeds r" by (rule answered_1)
  have "enc_success c (script, calls) = (Return (), (drop 1 script, calls @ [c]))"
    using r by (simp add: s enc_defs call_succeeds_def)
  then show "\<exists>j ext. j \<le> 1 \<and> enc_success c (script, calls)
      = (Return (), (drop j script, calls @ ext))"
    by blast
qed

lemma passes_option: "passes 1 (enc_bind (SetFrameOption option v) enc_expect)"
proof (rule passesI)
  fix script calls
  assume "answered 1 script"
  then obtain r rest where s: "script = r # rest" and r: "call_succeeds r" by (rule answered_1)
  have "enc_bind (SetFrameOption option v) enc_expect (script, calls)
      = (Return (), (drop 1 script, calls @ [JxlEncoderFrameSettingsSetOption option v]))"
    using r by (simp add: s enc_defs call_succeeds_def)
  then show "\<exists>j ext. j \<le> 1 \<and> enc_bind (SetFrameOption option v) enc_expect (script, calls)
      = (Return (), (drop j script, calls @ ext))"
    by blast
qed

lemma passes_level:
  "passes 2 (enc_bind (enc_call JxlEncoderGetRequiredCodestreamLevel)
       (\<lambda>r. if returned_level r <s 0 then enc_null
            else enc_when (returned_level r = 10)
                   (enc_success (JxlEncoderSetCodestreamLevel 10))))"
proof (rule passesI)
  fix script calls
  let ?m = "enc_bind (enc_call JxlEncoderGetRequiredCodestreamLevel)
       (\<lambda>r. if returned_level r <s 0 then enc_null
            else enc_when (returned_level r = 10)
                   (enc_success (JxlEncoderSetCodestreamLevel 10)))"
  assume a: "answered 2 script"
  then have "answered 1 script" by (rule answered_mono) simp
  then obtain r rest where s: "script = r # rest" and r: "call_succeeds r" by (rule answered_1)
  have "answered (1 + 1) script" using a by (simp add: numeral_2_eq_2)
  then have "answered 1 (drop 1 script)" by (rule answered_drop) simp
  then have a1: "answered 1 rest" by (simp add: s)
  obtain j ext where j: "j \<le> 1"
    and w: "enc_when (returned_level r = 10) (enc_success (JxlEncoderSetCodestreamLevel 10))
          (rest, calls @ [JxlEncoderGetRequiredCodestreamLevel])
        = (Return (), (drop j rest, (calls @ [JxlEncoderGetRequiredCodestreamLevel]) @ ext))"
    using passes_when [OF passes_success] a1 by (rule passesD)
  have "?m (script, calls)
      = (Return (), (drop (Suc j) script, calls @ (JxlEncoderGetRequiredCodestreamLevel # ext)))"
    using r w by (simp add: s enc_bind_def call_succeeds_def)
  moreover have "Suc j \<le> 2" using j by simp
  ultimately show "\<exists>j ext. j \<le> 2 \<and> ?m (script, calls) = (Return (), (drop j script, calls @ ext))"
    by blast
qed

lemma SetupColorEncoding_known:
  "color_space_id \<in> {0, 1, 2, 3}
   \<Longrightarrow> fst (SetupColorEncoding lib color_space_id input_type color_encoding)"
  by (auto simp add: SetupColorEncoding_def Let_def)

lemma passes_color:
  assumes "fst (SetupColorEncoding lib color_space_id input_type color_encoding)"
  shows "passes 1
     (case SetupColorEncoding lib color_space_id input_type color_encoding of
        (ok, color_encoding) \<Rightarrow>
          if \<not> ok then enc_null else enc_success (JxlEncoderSetColorEncoding color_encoding))"
  using assms by (simp add: case_prod_beta passes_success del: One_nat_def)

lemma reachesI:
  assumes "\<And>script calls. answered k script \<Longrightarrow> c \<in> set (snd (snd (m (script, calls))))"
  shows "reaches k c m"
  using assms unfolding reaches_def by blast

lemma reaches_mono: "reaches j c m \<Longrightarrow> j \<le> k \<Longrightarrow> reaches k c m"
  unfolding reaches_def by (meson answered_mono)

lemma reaches_success: "reaches 0 c (enc_success c)"
proof (rule reachesI)
  fix script :: "encoder_response list" and calls
  show "c \<in> set (snd (snd (enc_success c (script, calls))))"
    by (cases script) (simp_all add: enc_defs)
qed

lemma reaches_bind_keep:
  assumes m: "reaches k c m" and f: "\<And>x. adds (\<lambda>_. True) (f x)"
  shows "reaches k c (enc_bind m f)"
proof (rule reachesI)
  fix script calls
  assume "answered k script"
  with m have c: "c \<in> set (snd (snd (m (script, calls))))" unfolding reaches_def by blast
  obtain r script1 calls1 where ms: "m (script, calls) = (r, (script1, calls1))"
    by (metis prod.exhaust)
  with c have c1: "c \<in> set calls1" by simp
  show "c \<in> set (snd (snd (enc_bind m f (script, calls))))"
  proof (cases r)
    case (Return x)
    obtain e2 where "snd (snd (f x (script1, calls1))) = calls1 @ e2"
      using f by (rule addsD)
    with Return ms c1 show ?thesis by (simp add: enc_bind_def)
  next
    case ReturnNull
    with ms c1 show ?thesis by (simp add: enc_bind_def)
  next
    case Pending
    with ms c1 show ?thesis by (simp add: enc_bind_def)
  qed
qed

lemma reaches_bind_skip:
  assumes m: "passes k1 m" and f: "reaches k2 c m'"
  shows "reaches (k1 + k2) c (enc_bind m (\<lambda>_. m'))"
proof (rule reachesI)
  fix script calls
  assume a: "answered (k1 + k2) script"
  then have "answered k1 script" by (rule answered_mono) simp
  with m obtain j1 e1 where j1: "j1 \<le> k1"
      and r1: "m (script, calls) = (Return (), (drop j1 script, calls @ e1))"
    by (rule passesD)
  have "answered k2 (drop j1 script)" using a j1 by (rule answered_drop)
  with f have "c \<in> set (snd (snd (m' (drop j1 script, calls @ e1))))"
    unfolding reaches_def by blast
  then show "c \<in> set (snd (snd (enc_bind m (\<lambda>_. m') (script, calls))))"
    by (simp add: enc_bind_def r1)
qed

lemma reaches_seq_skip:
  "passes k1 m \<Longrightarrow> reaches k2 c (enc_seq ms) \<Longrightarrow> reaches (k1 + k2) c (enc_seq (m # ms))"
  by (simp add: reaches_bind_skip)

lemma reaches_seq_here:
  "reaches k c m \<Longrightarrow> adds (\<lambda>_. True) (enc_seq ms) \<Longrightarrow> reaches k c (enc_seq (m # ms))"
  by (simp add: reaches_bind_keep)

section \<open>Properties of encode\<close>

lemma encode_unfold:
  "encode fl pthreads lib script image_data width height options =
     (if width \<le>s 0 \<or> height \<le>s 0 then (ReturnNull, [])
      else if numChannels options \<noteq> 3 \<and> numChannels options \<noteq> 4 then (ReturnNull, [])
      else if \<not> IsSupportedCombination (inputType options) (bitDepth options)
        then (ReturnNull, [])
      else case ComputeExpectedSize width height (numChannels options)
                  (if inputType options = 1 then 2 else if inputType options = 2 then 4
                   else (1 :: size_t)) of
             None \<Rightarrow> (ReturnNull, [])
           | Some expected_size \<Rightarrow>
               if unat expected_size \<noteq> length image_data then (ReturnNull, [])
               else
                 (fst (encode_engine fl pthreads lib image_data width height options
                         (if inputType options = 1 then JXL_TYPE_UINT16
                          else if inputType options = 2 then JXL_TYPE_FLOAT else JXL_TYPE_UINT8)
                         (script, [])),
                  snd (snd (encode_engine fl pthreads lib image_data width height options
                         (if inputType options = 1 then JXL_TYPE_UINT16
                          else if inputType options = 2 then JXL_TYPE_FLOAT else JXL_TYPE_UINT8)
                         (script, [])))))"
  unfolding encode_def Let_def by (rule refl)

lemma encode_cases:
  "encode fl pthreads lib script image_data width height options = (ReturnNull, [])
   \<or> (\<exists>data_type. encode fl pthreads lib script image_data width height options =
         (fst (encode_engine fl pthreads lib image_data width height options data_type (script, [])),
          snd (snd (encode_engine fl pthreads lib image_data width height options data_type
                      (script, [])))))"
  unfolding encode_unfold
  by (simp split: option.split) blast

lemma encode_validation_fails:
  assumes "width \<le>s 0 \<or> height \<le>s 0
     \<or> numChannels options \<notin> {3, 4}
     \<or> (inputType options, bitDepth options) \<notin> {(0, 8), (1, 10), (1, 12), (1, 16), (2, 32)}
     \<or> unat width * unat height * nat (sint (numChannels options))
           * (if inputType options = 1 then 2 else if inputType options = 2 then 4 else 1)
         > 2 ^ 32 - 1
     \<or> length image_data \<noteq> unat width * unat height * nat (sint (numChannels options))
           * (if inputType options = 1 then 2 else if inputType options = 2 then 4 else 1)"
  shows "encode fl pthreads lib script image_data width height options = (ReturnNull, [])"
proof (cases "width \<le>s 0 \<or> height \<le>s 0 \<or> numChannels options \<notin> {3, 4}
     \<or> \<not> IsSupportedCombination (inputType options) (bitDepth options)")
  case True
  then show ?thesis by (auto simp: encode_def)
next
  case False
  then have w: "width \<noteq> 0" and h: "height \<noteq> 0" and c: "\<not> numChannels options \<le>s 0"
    by (auto simp: word_sle_eq)
  let ?b = "(if inputType options = 1 then 2 else if inputType options = 2 then 4 else 1) :: size_t"
  let ?P = "unat width * unat height * nat (sint (numChannels options))
           * (if inputType options = 1 then 2 else if inputType options = 2 then 4 else 1)"
  have b: "?b \<noteq> 0" by simp
  have ub: "unat ?b = (if inputType options = 1 then 2 else if inputType options = 2 then 4 else 1)"
    by simp
  have sup: "(inputType options, bitDepth options) \<in> {(0, 8), (1, 10), (1, 12), (1, 16), (2, 32)}"
    using False by (auto simp: IsSupportedCombination_def split: if_splits)
  from assms False sup have viol: "?P > 2 ^ 32 - 1 \<or> length image_data \<noteq> ?P" by blast
  have ces: "ComputeExpectedSize width height (numChannels options) ?b =
         (if ?P \<le> 2 ^ 32 - 1 then Some (of_nat ?P) else None)"
    using ComputeExpectedSize_positive [where 's = 32, OF _ w h c b] unfolding ub by simp
  show ?thesis
  proof (cases "?P \<le> 2 ^ 32 - 1")
    case le: True
    then have "unat (of_nat ?P :: size_t) = ?P"
      by (simp only: unat_of_nat) simp
    with le viol ces False show ?thesis
      by (simp add: encode_def split: if_splits)
  next
    case gt: False
    with ces False show ?thesis
      by (simp add: encode_def split: if_splits)
  qed
qed

lemma encode_valid_runs_engine:
  assumes "\<not> (width \<le>s 0 \<or> height \<le>s 0
     \<or> numChannels options \<notin> {3, 4}
     \<or> (inputType options, bitDepth options) \<notin> {(0, 8), (1, 10), (1, 12), (1, 16), (2, 32)}
     \<or> unat width * unat height * nat (sint (numChannels options))
           * (if inputType options = 1 then 2 else if inputType options = 2 then 4 else 1)
         > 2 ^ 32 - 1
     \<or> length image_data \<noteq> unat width * unat height * nat (sint (numChannels options))
           * (if inputType options = 1 then 2 else if inputType options = 2 then 4 else 1))"
  shows "\<exists>data_type. encode fl pthreads lib script image_data width height options =
         (fst (encode_engine fl pthreads lib image_data width height options data_type (script, [])),
          snd (snd (encode_engine fl pthreads lib image_data width height options data_type
                      (script, []))))"
proof -
  from assms have w: "width \<noteq> 0" and h: "height \<noteq> 0" and c: "\<not> numChannels options \<le>s 0"
    by (auto simp: word_sle_eq)
  let ?b = "(if inputType options = 1 then 2 else if inputType options = 2 then 4 else 1) :: size_t"
  let ?P = "unat width * unat height * nat (sint (numChannels options))
           * (if inputType options = 1 then 2 else if inputType options = 2 then 4 else 1)"
  have b: "?b \<noteq> 0" by simp
  have ub: "unat ?b = (if inputType options = 1 then 2 else if inputType options = 2 then 4 else 1)"
    by simp
  have sup: "IsSupportedCombination (inputType options) (bitDepth options)"
    using assms by (auto simp: IsSupportedCombination_def)
  from assms have le: "?P \<le> 2 ^ 32 - 1" and len: "length image_data = ?P" by auto
  have ces: "ComputeExpectedSize width height (numChannels options) ?b = Some (of_nat ?P)"
    using ComputeExpectedSize_positive [where 's = 32, OF _ w h c b] le unfolding ub by simp
  have u: "unat (of_nat ?P :: size_t) = ?P"
    using le by (simp only: unat_of_nat) simp
  from assms have g: "\<not> (width \<le>s 0 \<or> height \<le>s 0)"
      "\<not> (numChannels options \<noteq> 3 \<and> numChannels options \<noteq> 4)"
    by auto
  have "encode fl pthreads lib script image_data width height options =
      (fst (encode_engine fl pthreads lib image_data width height options
              (if inputType options = 1 then JXL_TYPE_UINT16
               else if inputType options = 2 then JXL_TYPE_FLOAT else JXL_TYPE_UINT8)
              (script, [])),
       snd (snd (encode_engine fl pthreads lib image_data width height options
              (if inputType options = 1 then JXL_TYPE_UINT16
               else if inputType options = 2 then JXL_TYPE_FLOAT else JXL_TYPE_UINT8)
              (script, []))))"
    unfolding encode_unfold
    by (simp only: g sup ces u len if_False if_True not_not option.case simp_thms)
  then show ?thesis by blast
qed

lemma encode_fidelity_distance_only:
  "adds (\<lambda>c. \<forall>d. c = JxlEncoderSetFrameDistance d \<longrightarrow>
             \<not> lossless options \<and> d = distance_of_quality fl (quality options))
     (encode_fidelity fl options)"
  by (simp add: encode_fidelity_def adds_intros)

lemma encode_engine_distance_only:
  "adds (\<lambda>c. \<forall>d. c = JxlEncoderSetFrameDistance d \<longrightarrow>
             \<not> lossless options \<and> d = distance_of_quality fl (quality options))
     (encode_engine fl pthreads lib image_data width height options data_type)"
  unfolding encode_engine_def Let_def
  by (intro adds_intros)
    (simp_all add: adds_intros encode_fidelity_distance_only split: prod.split)

lemma encode_fidelity_distance_must:
  assumes "\<not> lossless options"
  shows "must (JxlEncoderSetFrameDistance (distance_of_quality fl (quality options)))
     (encode_fidelity fl options)"
proof -
  have "must (JxlEncoderSetFrameDistance (distance_of_quality fl (quality options)))
     (enc_seq
        [ enc_when (clamp_float (quality options) 0 100 \<ge> 100 \<and> lossyModular options)
            (enc_bind (SetFrameOption JXL_ENC_FRAME_SETTING_MODULAR 1) enc_expect),
          enc_success (JxlEncoderSetFrameDistance (distance_of_quality fl (quality options))) ])"
    by (rule must_seq) (simp_all add: adds_intros must_success)
  with assms show ?thesis by (simp only: encode_fidelity_def if_False)
qed

lemma encode_engine_distance_must:
  assumes "\<not> lossless options"
  shows "must (JxlEncoderSetFrameDistance (distance_of_quality fl (quality options)))
     (encode_engine fl pthreads lib image_data width height options data_type)"
  unfolding encode_engine_def Let_def
  apply (rule must_bind_left)
   apply (rule must_seq)
    apply (simp add: adds_intros adds_encode_fidelity split: prod.split)
   apply (simp add: encode_fidelity_distance_must [OF assms])
  apply (simp add: adds_intros)
  done

lemma encode_fidelity_reaches:
  assumes "\<not> lossless options"
  shows "reaches 1 (JxlEncoderSetFrameDistance (distance_of_quality fl (quality options)))
     (encode_fidelity fl options)"
proof -
  have "reaches (1 + 0) (JxlEncoderSetFrameDistance (distance_of_quality fl (quality options)))
     (enc_seq
        [ enc_when (clamp_float (quality options) 0 100 \<ge> 100 \<and> lossyModular options)
            (enc_bind (SetFrameOption JXL_ENC_FRAME_SETTING_MODULAR 1) enc_expect),
          enc_success (JxlEncoderSetFrameDistance (distance_of_quality fl (quality options))) ])"
    apply (rule reaches_seq_skip)
     apply (rule passes_when)
     apply (rule passes_option)
    apply (rule reaches_seq_here)
     apply (rule reaches_success)
    apply (simp add: adds_return)
    done
  then have "reaches 1 (JxlEncoderSetFrameDistance (distance_of_quality fl (quality options)))
     (enc_seq
        [ enc_when (clamp_float (quality options) 0 100 \<ge> 100 \<and> lossyModular options)
            (enc_bind (SetFrameOption JXL_ENC_FRAME_SETTING_MODULAR 1) enc_expect),
          enc_success (JxlEncoderSetFrameDistance (distance_of_quality fl (quality options))) ])"
    by (rule reaches_mono) simp
  with assms show ?thesis by (simp only: encode_fidelity_def if_False)
qed

lemma encode_engine_reaches:
  assumes l: "\<not> lossless options" and cs: "colorSpace options \<in> {0, 1, 2, 3}"
  shows "reaches 21 (JxlEncoderSetFrameDistance (distance_of_quality fl (quality options)))
     (encode_engine fl pthreads lib image_data width height options data_type)"
proof -
  have "reaches
      (1 + ((1 + (1 + 0)) + (1 + (2 + (1 + (1 + (1 + (1 + (1 + (1 + (1
         + ((1 + (1 + (1 + 0))) + (1 + ((1 + (1 + (1 + 0))) + 1))))))))))))))
      (JxlEncoderSetFrameDistance (distance_of_quality fl (quality options)))
      (encode_engine fl pthreads lib image_data width height options data_type)"
    unfolding encode_engine_def Let_def
    apply (rule reaches_bind_keep)
     apply (intro reaches_seq_skip passes_when passes_seq_cons passes_seq_nil passes_handle
        passes_success passes_option passes_level passes_color SetupColorEncoding_known cs)
     apply (rule reaches_seq_here)
      apply (rule encode_fidelity_reaches [OF l])
     apply (simp add: adds_intros)
    apply (simp add: adds_intros)
    done
  then show ?thesis by (rule reaches_mono) simp
qed

lemma encode_reaches_distance:
  assumes v: "0 <s width" "0 <s height" "numChannels options \<in> {3, 4}"
      "(inputType options, bitDepth options) \<in> {(0, 8), (1, 10), (1, 12), (1, 16), (2, 32)}"
      "length image_data = unat width * unat height * nat (sint (numChannels options))
           * (if inputType options = 1 then 2 else if inputType options = 2 then 4 else 1)"
      "length image_data \<le> 2 ^ 32 - 1"
    and l: "\<not> lossless options" and cs: "colorSpace options \<in> {0, 1, 2, 3}"
    and a: "answered 21 script"
  shows "JxlEncoderSetFrameDistance (distance_of_quality fl (quality options))
         \<in> set (snd (encode fl pthreads lib script image_data width height options))"
proof -
  have "\<not> (width \<le>s 0 \<or> height \<le>s 0
     \<or> numChannels options \<notin> {3, 4}
     \<or> (inputType options, bitDepth options) \<notin> {(0, 8), (1, 10), (1, 12), (1, 16), (2, 32)}
     \<or> unat width * unat height * nat (sint (numChannels options))
           * (if inputType options = 1 then 2 else if inputType options = 2 then 4 else 1)
         > 2 ^ 32 - 1
     \<or> length image_data \<noteq> unat width * unat height * nat (sint (numChannels options))
           * (if inputType options = 1 then 2 else if inputType options = 2 then 4 else 1))"
    using v by (auto simp add: word_sle_eq word_sless_alt)
  then obtain data_type where e: "encode fl pthreads lib script image_data width height options =
         (fst (encode_engine fl pthreads lib image_data width height options data_type (script, [])),
          snd (snd (encode_engine fl pthreads lib image_data width height options data_type
                      (script, []))))"
    using encode_valid_runs_engine by blast
  show ?thesis
    using encode_engine_reaches [OF l cs, of fl pthreads lib image_data width height data_type] a
    unfolding e reaches_def by simp
qed

lemma answered_sample: "answered 21 (replicate 21 engine_ok)"
  by (simp add: answered_def call_succeeds_def engine_ok_def engine_says_def list_all_iff
      word_sless_alt)

lemma sample_encode_run:
  "encode exact_float False sample_libjxl sample_script (replicate 18 0) 3 2 sample_options =
     (Return [1, 2, 3, 4, 5],
      [JxlEncoderCreate,
       JxlEncoderSetBasicInfo
         \<lparr> xsize = 3, ysize = 2, bits_per_sample = 8, exponent_bits_per_sample = 0,
           num_color_channels = 3, num_extra_channels = 0, alpha_bits = 0,
           alpha_exponent_bits = 0, alpha_premultiplied = False,
           uses_original_profile = True \<rparr>,
       JxlEncoderGetRequiredCodestreamLevel,
       JxlEncoderSetColorEncoding
         \<lparr> color_space = JXL_COLOR_SPACE_RGB, white_point = JXL_WHITE_POINT_D65,
           primaries = JXL_PRIMARIES_SRGB, transfer_function = JXL_TRANSFER_FUNCTION_SRGB,
           rendering_intent = JXL_RENDERING_INTENT_RELATIVE \<rparr>,
       JxlEncoderFrameSettingsCreate,
       JxlEncoderFrameSettingsSetOption JXL_ENC_FRAME_SETTING_EFFORT 7,
       JxlEncoderFrameSettingsSetOption JXL_ENC_FRAME_SETTING_DECODING_SPEED 0,
       JxlEncoderFrameSettingsSetOption JXL_ENC_FRAME_SETTING_EPF (- 1),
       JxlEncoderSetFrameDistance 1,
       JxlEncoderAddImageFrame (JxlPixelFormat 3 JXL_TYPE_UINT8 JXL_NATIVE_ENDIAN 0)
         (replicate 18 0),
       JxlEncoderCloseInput,
       JxlEncoderProcessOutput 8192,
       JxlEncoderProcessOutput 16381])"
proof -
  have valid: "encode exact_float False sample_libjxl sample_script (replicate 18 0) 3 2 sample_options =
      (fst (encode_engine exact_float False sample_libjxl (replicate 18 0) 3 2 sample_options JXL_TYPE_UINT8
              (sample_script, [])),
       snd (snd (encode_engine exact_float False sample_libjxl (replicate 18 0) 3 2 sample_options
              JXL_TYPE_UINT8 (sample_script, []))))"
    by (simp add: encode_unfold IsSupportedCombination_def sample_options_def
        ComputeExpectedSize_def word_sle_eq)
  show ?thesis
    unfolding valid
    by (simp add: encode_engine_def encode_fidelity_def enc_defs engine_says_def
        sample_libjxl_def engine_ok_def sample_script_def sample_options_def
        SetupColorEncoding_def zero_color_encoding_def encode_basic_info_def clamp_int_def
        clamp_float_def distance_of_quality_def exact_float_def collect_output_def
        initial_output_buffer_def
        engine_output_def grow_output_def resize_def word_sle_eq word_sless_alt Let_def)
qed

text \<open>
  Claim C2, as stated, fails at quality 0: the distance is \<open>6.4 + 2.5 ^ 6 / 6.25 = 45.4625\<close>,
  more than 19 away from the claimed 65.4.
\<close>

theorem quality_zero_distance:
  "distance_of_quality exact_float 0 = 45.4625 \<and> \<bar>distance_of_quality exact_float 0 - 65.4\<bar> > 19"
  by (simp add: distance_of_quality_0)

text \<open>
  Claim C2, amended.  The quality is clamped to \<open>[0, 100]\<close>; read in exact arithmetic, the
  distance is 0 for a clamped quality of at least 100, \<open>0.1 + (100 - q) * 0.09\<close> from 30 up
  to 100, and \<open>6.4 + 2.5 powr ((30 - q) / 5) / 6.25\<close> below 30.  So quality 100 gives 0, quality 30
  gives 6.4 and quality 0 gives 45.4625.  In \<open>encode\<close>, a frame distance is set only when
  \<open>lossless\<close> is false, and only to this value; every call of \<open>encode\<close> with \<open>lossless\<close>
  false that returns bytes has set it; and \<open>encode\<close> with \<open>lossless\<close> false does set it,
  whatever the quality, whenever the input passes the validation, the colour space is one
  of the four known ones and the codec answers with success the calls made before it, of
  which there are at most 21.
\<close>

theorem encode_quality_to_distance:
  "distance_of_quality exact_float q =
     (if max 0 (min 100 q) \<ge> 100 then 0
      else if max 0 (min 100 q) \<ge> 30 then 0.1 + (100 - max 0 (min 100 q)) * 0.09
      else 6.4 + 2.5 powr ((30 - max 0 (min 100 q)) / 5) / 6.25)
   \<and> distance_of_quality exact_float 100 = 0
   \<and> distance_of_quality exact_float 30 = 6.4
   \<and> distance_of_quality exact_float 0 = 45.4625
   \<and> (JxlEncoderSetFrameDistance d
         \<in> set (snd (encode fl pthreads lib script image_data width height options)) \<longrightarrow>
       \<not> lossless options \<and> d = distance_of_quality fl (quality options))
   \<and> (fst (encode fl pthreads lib script image_data width height options) = Return out
         \<and> \<not> lossless options \<longrightarrow>
       JxlEncoderSetFrameDistance (distance_of_quality fl (quality options))
         \<in> set (snd (encode fl pthreads lib script image_data width height options)))
   \<and> (\<not> lossless options
       \<and> 0 <s width \<and> 0 <s height \<and> numChannels options \<in> {3, 4}
       \<and> (inputType options, bitDepth options) \<in> {(0, 8), (1, 10), (1, 12), (1, 16), (2, 32)}
       \<and> length image_data = unat width * unat height * nat (sint (numChannels options))
           * (if inputType options = 1 then 2 else if inputType options = 2 then 4 else 1)
       \<and> length image_data \<le> 2 ^ 32 - 1
       \<and> colorSpace options \<in> {0, 1, 2, 3}
       \<and> answered 21 script \<longrightarrow>
       JxlEncoderSetFrameDistance (distance_of_quality fl (quality options))
         \<in> set (snd (encode fl pthreads lib script image_data width height options)))"
proof (intro conjI impI)
  show "distance_of_quality exact_float q =
     (if max 0 (min 100 q) \<ge> 100 then 0
      else if max 0 (min 100 q) \<ge> 30 then 0.1 + (100 - max 0 (min 100 q)) * 0.09
      else 6.4 + 2.5 powr ((30 - max 0 (min 100 q)) / 5) / 6.25)"
    by (simp add: distance_of_quality_def exact_float_def clamp_float_def max_def min_def)
  show "distance_of_quality exact_float 100 = 0" by (rule distance_of_quality_100)
  show "distance_of_quality exact_float 30 = 6.4" by (rule distance_of_quality_30)
  show "distance_of_quality exact_float 0 = 45.4625" by (rule distance_of_quality_0)
next
  let ?P = "\<lambda>c. \<forall>d. c = JxlEncoderSetFrameDistance d \<longrightarrow>
             \<not> lossless options \<and> d = distance_of_quality fl (quality options)"
  assume mem: "JxlEncoderSetFrameDistance d
         \<in> set (snd (encode fl pthreads lib script image_data width height options))"
  then obtain data_type where e: "encode fl pthreads lib script image_data width height options =
         (fst (encode_engine fl pthreads lib image_data width height options data_type (script, [])),
          snd (snd (encode_engine fl pthreads lib image_data width height options data_type
                      (script, []))))"
    using encode_cases [of fl pthreads lib script image_data width height options] by auto
  obtain ext where "snd (snd (encode_engine fl pthreads lib image_data width height options
        data_type (script, []))) = [] @ ext" and "list_all ?P ext"
    using encode_engine_distance_only by (rule addsD)
  with mem e have "?P (JxlEncoderSetFrameDistance d)" by (simp add: list_all_iff)
  then show "\<not> lossless options" and "d = distance_of_quality fl (quality options)" by simp_all
next
  assume a: "fst (encode fl pthreads lib script image_data width height options) = Return out
         \<and> \<not> lossless options"
  then obtain data_type where e: "encode fl pthreads lib script image_data width height options =
         (fst (encode_engine fl pthreads lib image_data width height options data_type (script, [])),
          snd (snd (encode_engine fl pthreads lib image_data width height options data_type
                      (script, []))))"
    using encode_cases [of fl pthreads lib script image_data width height options] by auto
  obtain s' where run: "encode_engine fl pthreads lib image_data width height options data_type
      (script, []) = (Return out, s')"
    using a e by (metis fst_conv prod.collapse)
  have "must (JxlEncoderSetFrameDistance (distance_of_quality fl (quality options)))
     (encode_engine fl pthreads lib image_data width height options data_type)"
    using a by (simp add: encode_engine_distance_must)
  with run have "JxlEncoderSetFrameDistance (distance_of_quality fl (quality options)) \<in> set (snd s')"
    unfolding must_def by blast
  with e run show "JxlEncoderSetFrameDistance (distance_of_quality fl (quality options))
         \<in> set (snd (encode fl pthreads lib script image_data width height options))"
    by simp
next
  assume "\<not> lossless options
       \<and> 0 <s width \<and> 0 <s height \<and> numChannels options \<in> {3, 4}
       \<and> (inputType options, bitDepth options) \<in> {(0, 8), (1, 10), (1, 12), (1, 16), (2, 32)}
       \<and> length image_data = unat width * unat height * nat (sint (numChannels options))
           * (if inputType options = 1 then 2 else if inputType options = 2 then 4 else 1)
       \<and> length image_data \<le> 2 ^ 32 - 1
       \<and> colorSpace options \<in> {0, 1, 2, 3}
       \<and> answered 21 script"
  then show "JxlEncoderSetFrameDistance (distance_of_quality fl (quality options))
         \<in> set (snd (encode fl pthreads lib script image_data width height options))"
    by (intro encode_reaches_distance) simp_all
qed

theorem encode_quality_to_distance_witness:
  "JxlEncoderSetFrameDistance 1
     \<in> set (snd (encode exact_float False sample_libjxl sample_script (replicate 18 0) 3 2 sample_options))
   \<and> \<not> lossless sample_options
   \<and> distance_of_quality exact_float (quality sample_options) = 1
   \<and> fst (encode exact_float False sample_libjxl sample_script (replicate 18 0) 3 2 sample_options)
       = Return [1, 2, 3, 4, 5]
   \<and> JxlEncoderSetFrameDistance 45.4625
     \<in> set (snd (encode exact_float False sample_libjxl (replicate 21 engine_ok) (replicate 18 0)
                   3 2 (sample_options \<lparr> quality := 0 \<rparr>)))
   \<and> JxlEncoderSetFrameDistance 0
     \<in> set (snd (encode exact_float False sample_libjxl (replicate 21 engine_ok) (replicate 18 0)
                   3 2 (sample_options \<lparr> quality := 100 \<rparr>)))"
proof -
  have q90: "JxlEncoderSetFrameDistance 1
     \<in> set (snd (encode exact_float False sample_libjxl sample_script (replicate 18 0) 3 2 sample_options))
   \<and> \<not> lossless sample_options
   \<and> distance_of_quality exact_float (quality sample_options) = 1
   \<and> fst (encode exact_float False sample_libjxl sample_script (replicate 18 0) 3 2 sample_options)
       = Return [1, 2, 3, 4, 5]"
    using encode_quality_to_distance [where q = 90 and d = 1 and fl = exact_float
      and pthreads = False and lib = sample_libjxl and script = sample_script
      and image_data = "replicate 18 0" and width = 3 and height = 2
      and options = sample_options and out = "[1, 2, 3, 4, 5]"]
    by (simp add: sample_encode_run)
  have q0: "JxlEncoderSetFrameDistance 45.4625
     \<in> set (snd (encode exact_float False sample_libjxl (replicate 21 engine_ok) (replicate 18 0)
                   3 2 (sample_options \<lparr> quality := 0 \<rparr>)))"
    using encode_quality_to_distance [where q = 0 and d = 0 and fl = exact_float
      and pthreads = False and lib = sample_libjxl and script = "replicate 21 engine_ok"
      and image_data = "replicate 18 0" and width = 3 and height = 2
      and options = "sample_options \<lparr> quality := 0 \<rparr>" and out = "[]"]
    by (simp add: answered_sample sample_options_def word_sless_alt distance_of_quality_0
        distance_of_quality_30 distance_of_quality_100)
  have q100: "JxlEncoderSetFrameDistance 0
     \<in> set (snd (encode exact_float False sample_libjxl (replicate 21 engine_ok) (replicate 18 0)
                   3 2 (sample_options \<lparr> quality := 100 \<rparr>)))"
    using encode_quality_to_distance [where q = 0 and d = 0 and fl = exact_float
      and pthreads = False and lib = sample_libjxl and script = "replicate 21 engine_ok"
      and image_data = "replicate 18 0" and width = 3 and height = 2
      and options = "sample_options \<lparr> quality := 100 \<rparr>" and out = "[]"]
    by (simp add: answered_sample sample_options_def word_sless_alt distance_of_quality_0
        distance_of_quality_30 distance_of_quality_100)
  from q90 q0 q100 show ?thesis by simp
qed

text \<open>
  Claim C7.  If the width or the height is not positive, or the channel count is neither
  3 nor 4, or the pair of input type and bit depth is not one of (0, 8), (1, 10), (1, 12),
  (1, 16), (2, 32), or the product width * height * channels * bytes-per-sample exceeds the
  largest \<open>size_t\<close>, or the buffer length differs from that product, then \<open>encode\<close> returns
  null and has made no call on the codec.  Otherwise the first thing it does is create the
  encoder.  The pair (0, 16) is not supported and the pair (1, 12) is.
\<close>

theorem encode_validates_before_engine:
  "(width \<le>s 0 \<or> height \<le>s 0
     \<or> numChannels options \<notin> {3, 4}
     \<or> (inputType options, bitDepth options) \<notin> {(0, 8), (1, 10), (1, 12), (1, 16), (2, 32)}
     \<or> unat width * unat height * nat (sint (numChannels options))
           * (if inputType options = 1 then 2 else if inputType options = 2 then 4 else 1)
         > 2 ^ 32 - 1
     \<or> length image_data \<noteq> unat width * unat height * nat (sint (numChannels options))
           * (if inputType options = 1 then 2 else if inputType options = 2 then 4 else 1)
    \<longrightarrow> encode fl pthreads lib script image_data width height options = (ReturnNull, []))
   \<and> (\<not> (width \<le>s 0 \<or> height \<le>s 0
     \<or> numChannels options \<notin> {3, 4}
     \<or> (inputType options, bitDepth options) \<notin> {(0, 8), (1, 10), (1, 12), (1, 16), (2, 32)}
     \<or> unat width * unat height * nat (sint (numChannels options))
           * (if inputType options = 1 then 2 else if inputType options = 2 then 4 else 1)
         > 2 ^ 32 - 1
     \<or> length image_data \<noteq> unat width * unat height * nat (sint (numChannels options))
           * (if inputType options = 1 then 2 else if inputType options = 2 then 4 else 1))
    \<longrightarrow> (\<exists>ext. snd (encode fl pthreads lib script image_data width height options)
                = JxlEncoderCreate # ext))
   \<and> \<not> IsSupportedCombination 0 16 \<and> IsSupportedCombination 1 12"
proof (intro conjI impI)
  assume "width \<le>s 0 \<or> height \<le>s 0
     \<or> numChannels options \<notin> {3, 4}
     \<or> (inputType options, bitDepth options) \<notin> {(0, 8), (1, 10), (1, 12), (1, 16), (2, 32)}
     \<or> unat width * unat height * nat (sint (numChannels options))
           * (if inputType options = 1 then 2 else if inputType options = 2 then 4 else 1)
         > 2 ^ 32 - 1
     \<or> length image_data \<noteq> unat width * unat height * nat (sint (numChannels options))
           * (if inputType options = 1 then 2 else if inputType options = 2 then 4 else 1)"
  then show "encode fl pthreads lib script image_data width height options = (ReturnNull, [])"
    by (rule encode_validation_fails)
next
  assume "\<not> (width \<le>s 0 \<or> height \<le>s 0
     \<or> numChannels options \<notin> {3, 4}
     \<or> (inputType options, bitDepth options) \<notin> {(0, 8), (1, 10), (1, 12), (1, 16), (2, 32)}
     \<or> unat width * unat height * nat (sint (numChannels options))
           * (if inputType options = 1 then 2 else if inputType options = 2 then 4 else 1)
         > 2 ^ 32 - 1
     \<or> length image_data \<noteq> unat width * unat height * nat (sint (numChannels options))
           * (if inputType options = 1 then 2 else if inputType options = 2 then 4 else 1))"
  then obtain data_type where e: "encode fl pthreads lib script image_data width height options =
         (fst (encode_engine fl pthreads lib image_data width height options data_type (script, [])),
          snd (snd (encode_engine fl pthreads lib image_data width height options data_type
                      (script, []))))"
    using encode_valid_runs_engine by blast
  obtain ext where "snd (snd (encode_engine fl pthreads lib image_data width height options
      data_type (script, []))) = JxlEncoderCreate # ext"
    using encode_engine_starts unfolding starts_def by blast
  with e show "\<exists>ext. snd (encode fl pthreads lib script image_data width height options)
                = JxlEncoderCreate # ext"
    by simp
next
  show "\<not> IsSupportedCombination 0 16" by (simp add: IsSupportedCombination_def)
  show "IsSupportedCombination 1 12" by (simp add: IsSupportedCombination_def)
qed

theorem encode_validates_before_engine_witness:
  "encode exact_float False sample_libjxl sample_script (replicate 18 0) 0 2 sample_options = (ReturnNull, [])
   \<and> encode exact_float False sample_libjxl sample_script (replicate 17 0) 3 2 sample_options
       = (ReturnNull, [])
   \<and> encode exact_float False sample_libjxl sample_script (replicate 18 0) 3 2
         (sample_options \<lparr> bitDepth := 16 \<rparr>) = (ReturnNull, [])
   \<and> encode exact_float False sample_libjxl sample_script (replicate 18 0) 65536 65536 sample_options
       = (ReturnNull, [])
   \<and> (\<exists>ext. snd (encode exact_float False sample_libjxl sample_script (replicate 18 0) 3 2 sample_options)
                = JxlEncoderCreate # ext)"
  using encode_validates_before_engine [where width = 0 and height = 2 and options = sample_options
      and image_data = "replicate 18 0" and fl = exact_float and pthreads = False and lib = sample_libjxl
      and script = sample_script]
    encode_validates_before_engine [where width = 3 and height = 2 and options = sample_options
      and image_data = "replicate 17 0" and fl = exact_float and pthreads = False and lib = sample_libjxl
      and script = sample_script]
    encode_validates_before_engine [where width = 3 and height = 2 and options = "sample_options \<lparr> bitDepth := 16 \<rparr>"
      and image_data = "replicate 18 0" and fl = exact_float and pthreads = False and lib = sample_libjxl
      and script = sample_script]
    encode_validates_before_engine [where width = 65536 and height = 65536 and options = sample_options
      and image_data = "replicate 18 0" and fl = exact_float and pthreads = False and lib = sample_libjxl
      and script = sample_script]
    encode_validates_before_engine [where width = 3 and height = 2 and options = sample_options
      and image_data = "replicate 18 0" and fl = exact_float and pthreads = False and lib = sample_libjxl
      and script = sample_script]
  by (simp add: sample_options_def word_sle_eq)

section \<open>Properties of the output loop\<close>

lemma engine_output_fits:
  assumes "next_out buf + avail_out buf = length (compressed buf)"
    and "length (written r) \<le> avail_out buf"
  shows "length (compressed (engine_output r buf)) = length (compressed buf)"
    and "next_out (engine_output r buf) = next_out buf + length (written r)"
    and "avail_out (engine_output r buf) = avail_out buf - length (written r)"
    and "take (next_out (engine_output r buf)) (compressed (engine_output r buf))
           = take (next_out buf) (compressed buf) @ written r"
  using assms by (simp_all add: engine_output_def)

lemma grow_output_doubles:
  "length (compressed (grow_output buf)) = 2 * length (compressed buf)"
  "take (length (compressed buf)) (compressed (grow_output buf)) = compressed buf"
  "next_out (grow_output buf) = next_out buf"
  "avail_out (grow_output buf) = 2 * length (compressed buf) - next_out buf"
  by (simp_all add: grow_output_def resize_def Let_def)

lemma grow_output_prefix:
  "n \<le> length (compressed buf) \<Longrightarrow>
   take n (compressed (grow_output buf)) = take n (compressed buf)"
  by (simp add: grow_output_def resize_def Let_def)

lemma collect_output_loop_run:
  assumes "next_out buf + avail_out buf = length (compressed buf)"
    and "\<forall>r \<in> set needs. returned_status r = JXL_ENC_NEED_MORE_OUTPUT"
    and "returned_status r \<noteq> JXL_ENC_NEED_MORE_OUTPUT"
    and "list_all2 (\<le>) (map (\<lambda>x. length (written x)) (needs @ [r]))
           (avail_sequence (length (compressed buf)) (next_out buf)
              (map (\<lambda>x. length (written x)) (needs @ [r])))"
  shows "collect_output_loop buf (needs @ r # rest, calls) =
           ((if returned_status r = JXL_ENC_SUCCESS
             then Return (take (next_out buf) (compressed buf)
                            @ concat (map written (needs @ [r])))
             else ReturnNull),
            (rest, calls @ map JxlEncoderProcessOutput
               (avail_sequence (length (compressed buf)) (next_out buf)
                  (map (\<lambda>x. length (written x)) (needs @ [r])))))"
  using assms
proof (induction needs arbitrary: buf calls)
  case Nil
  have av: "length (compressed buf) - next_out buf = avail_out buf" using Nil.prems(1) by simp
  from Nil.prems(4) have fit: "length (written r) \<le> avail_out buf" by (simp add: av)
  note eo = engine_output_fits [OF Nil.prems(1) fit]
  have "next_out (engine_output r buf) \<le> length (compressed (engine_output r buf))"
    using eo(1,2) fit Nil.prems(1) by simp
  then have "resize (next_out (engine_output r buf)) (compressed (engine_output r buf))
      = take (next_out buf) (compressed buf) @ written r"
    using eo(4) by (simp add: resize_def)
  with Nil.prems(3) av show ?case by (simp add: Let_def)
next
  case (Cons n needs)
  have av: "length (compressed buf) - next_out buf = avail_out buf" using Cons.prems(1) by simp
  from Cons.prems(4) have fit: "length (written n) \<le> avail_out buf"
    by (simp add: av)
  note eo = engine_output_fits [OF Cons.prems(1) fit]
  let ?b = "grow_output (engine_output n buf)"
  have len: "length (compressed ?b) = 2 * length (compressed buf)"
    by (simp add: grow_output_doubles eo)
  have off: "next_out ?b = next_out buf + length (written n)"
    by (simp add: grow_output_doubles eo)
  have wf: "next_out ?b + avail_out ?b = length (compressed ?b)"
    using fit Cons.prems(1) by (simp add: grow_output_doubles eo)
  have pre: "take (next_out ?b) (compressed ?b) = take (next_out buf) (compressed buf) @ written n"
  proof -
    have "next_out buf + length (written n) \<le> length (compressed (engine_output n buf))"
      using fit Cons.prems(1) eo(1) by simp
    then have "take (next_out buf + length (written n)) (compressed ?b)
        = take (next_out buf + length (written n)) (compressed (engine_output n buf))"
      by (rule grow_output_prefix)
    with eo(2,4) off show ?thesis by simp
  qed
  have fits': "list_all2 (\<le>) (map (\<lambda>x. length (written x)) (needs @ [r]))
           (avail_sequence (length (compressed ?b)) (next_out ?b)
              (map (\<lambda>x. length (written x)) (needs @ [r])))"
    using Cons.prems(4) by (simp add: len off)
  have st: "returned_status n = JXL_ENC_NEED_MORE_OUTPUT" using Cons.prems(2) by simp
  have all: "\<forall>r \<in> set needs. returned_status r = JXL_ENC_NEED_MORE_OUTPUT"
    using Cons.prems(2) by simp
  note IH = Cons.IH [OF wf all Cons.prems(3) fits',
      of "calls @ [JxlEncoderProcessOutput (avail_out buf)]"]
  show ?case
    using st by (simp add: Let_def IH pre [unfolded off] len off av)
qed

lemma collect_output_loop_pending:
  assumes "\<forall>r \<in> set needs. returned_status r = JXL_ENC_NEED_MORE_OUTPUT"
  shows "fst (collect_output_loop buf (needs, calls)) = Pending"
  using assms by (induction needs arbitrary: buf calls) (simp_all add: Let_def)

text \<open>
  Claim C4.  The output loop starts with a buffer of 8192 bytes, offset 0.  Growing the
  buffer doubles its length, keeps every byte it held and keeps the offset.  If the codec
  asks for more output some number of times and then answers with another status, never
  writing more than it was offered, then the offers follow the doubling rule, the loop
  returns null unless that last status is success, and on success it returns exactly the
  bytes the codec wrote, in order, with nothing after them.  While the codec keeps asking
  for more output the loop keeps running.
\<close>

theorem collect_output_geometric:
  "length (compressed initial_output_buffer) = 8192
   \<and> next_out initial_output_buffer = 0
   \<and> avail_out initial_output_buffer = 8192
   \<and> length (compressed (grow_output buf)) = 2 * length (compressed buf)
   \<and> take (length (compressed buf)) (compressed (grow_output buf)) = compressed buf
   \<and> next_out (grow_output buf) = next_out buf
   \<and> avail_out (grow_output buf) = 2 * length (compressed buf) - next_out buf
   \<and> ((\<forall>r \<in> set needs. returned_status r = JXL_ENC_NEED_MORE_OUTPUT)
        \<and> returned_status r \<noteq> JXL_ENC_NEED_MORE_OUTPUT
        \<and> list_all2 (\<le>) (map (\<lambda>x. length (written x)) (needs @ [r]))
             (avail_sequence 8192 0 (map (\<lambda>x. length (written x)) (needs @ [r])))
      \<longrightarrow> collect_output (needs @ r # rest, calls) =
            ((if returned_status r = JXL_ENC_SUCCESS
              then Return (concat (map written (needs @ [r])))
              else ReturnNull),
             (rest, calls @ map JxlEncoderProcessOutput
                (avail_sequence 8192 0 (map (\<lambda>x. length (written x)) (needs @ [r]))))))
   \<and> ((\<forall>r \<in> set needs. returned_status r = JXL_ENC_NEED_MORE_OUTPUT)
      \<longrightarrow> fst (collect_output (needs, calls)) = Pending)"
proof (intro conjI impI)
  assume a: "(\<forall>r \<in> set needs. returned_status r = JXL_ENC_NEED_MORE_OUTPUT)
        \<and> returned_status r \<noteq> JXL_ENC_NEED_MORE_OUTPUT
        \<and> list_all2 (\<le>) (map (\<lambda>x. length (written x)) (needs @ [r]))
             (avail_sequence 8192 0 (map (\<lambda>x. length (written x)) (needs @ [r])))"
  have wf: "next_out initial_output_buffer + avail_out initial_output_buffer
      = length (compressed initial_output_buffer)"
    by (simp add: initial_output_buffer_def)
  have i: "length (compressed initial_output_buffer) = 8192" "next_out initial_output_buffer = 0"
    by (simp_all add: initial_output_buffer_def)
  from a have fits: "list_all2 (\<le>) (map (\<lambda>x. length (written x)) (needs @ [r]))
       (avail_sequence (length (compressed initial_output_buffer))
          (next_out initial_output_buffer) (map (\<lambda>x. length (written x)) (needs @ [r])))"
    by (simp only: i)
  from a have all: "\<forall>r \<in> set needs. returned_status r = JXL_ENC_NEED_MORE_OUTPUT"
    and last: "returned_status r \<noteq> JXL_ENC_NEED_MORE_OUTPUT" by simp_all
  show "collect_output (needs @ r # rest, calls) =
            ((if returned_status r = JXL_ENC_SUCCESS
              then Return (concat (map written (needs @ [r])))
              else ReturnNull),
             (rest, calls @ map JxlEncoderProcessOutput
                (avail_sequence 8192 0 (map (\<lambda>x. length (written x)) (needs @ [r])))))"
    unfolding collect_output_def
    using collect_output_loop_run [OF wf all last fits, of rest calls]
    by (simp add: i)
next
  assume "\<forall>r \<in> set needs. returned_status r = JXL_ENC_NEED_MORE_OUTPUT"
  then show "fst (collect_output (needs, calls)) = Pending"
    unfolding collect_output_def by (rule collect_output_loop_pending)
qed (simp_all add: initial_output_buffer_def grow_output_doubles)

theorem collect_output_geometric_witness:
  "collect_output
     ([engine_says JXL_ENC_NEED_MORE_OUTPUT [1, 2, 3], engine_says JXL_ENC_NEED_MORE_OUTPUT [],
       engine_says JXL_ENC_SUCCESS [4, 5], engine_ok], [])
   = (Return [1, 2, 3, 4, 5],
      ([engine_ok], [JxlEncoderProcessOutput 8192, JxlEncoderProcessOutput 16381,
              JxlEncoderProcessOutput 32765]))
   \<and> collect_output
     ([engine_says JXL_ENC_NEED_MORE_OUTPUT [1, 2, 3], engine_says JXL_ENC_ERROR []], [])
   = (ReturnNull, ([], [JxlEncoderProcessOutput 8192, JxlEncoderProcessOutput 16381]))
   \<and> fst (collect_output ([engine_says JXL_ENC_NEED_MORE_OUTPUT [1, 2, 3]], [])) = Pending"
  using collect_output_geometric [of initial_output_buffer
      "[engine_says JXL_ENC_NEED_MORE_OUTPUT [1, 2, 3], engine_says JXL_ENC_NEED_MORE_OUTPUT []]"
      "engine_says JXL_ENC_SUCCESS [4, 5]" "[engine_ok]" "[]"]
    collect_output_geometric [of initial_output_buffer
      "[engine_says JXL_ENC_NEED_MORE_OUTPUT [1, 2, 3]]"
      "engine_says JXL_ENC_ERROR []" "[]" "[]"]
  by (simp add: engine_says_def)

end
